theory Spec2Isabelle
  imports Complex_Main
begin

section \<open>Joint-space force decomposition: getJointSpaceForces.cpp\<close>

text \<open>
  The program reads four whitespace-delimited text streams frame by frame, realizes a multibody
  model at each frame, computes the joint-space torque contributions and writes a residual and
  an internal-force row per frame.

  Conventions of the embedding:
  \<^item> a C++ \<open>double\<close> is a \<open>real\<close> and the arithmetic is exact; the rounding of \<open>double\<close>
    arithmetic is modelled apart, for the two sums of the consistency check;
  \<^item> a SimTK \<open>Vector\<close> is a \<open>real list\<close>, a \<open>Matrix\<close> the list of its rows. A
    default-constructed \<open>Vector\<close> or \<open>Matrix\<close> has size 0: it is the empty list;
  \<^item> SimTK adds and subtracts vectors of one size only (the library asserts it, and reads
    past the shorter operand when assertions are off): other operands are the error
    \<open>SizeMismatch\<close>;
  \<^item> a fixed-size array (\<open>double *\<close>, \<open>Vec<18>\<close>, a sized \<open>Vector_<double>\<close> that is filled by
    index) is a function from indices, so that its content before the first write is a
    parameter; a write past the end of a \<open>Vec<18>\<close> is the error \<open>IndexOutOfRange\<close>;
  \<^item> an input file is the list of its whitespace-separated tokens, read by \<open>operator>>\<close>
    with the state flags of the stream;
  \<^item> the multibody engine (OpenSim/Simbody) is not part of the program: its operations are
    the fields of a record, and every theorem holds for every engine unless it names a
    hypothesis on it;
  \<^item> what the program prints on standard output is left out.
\<close>

subsection \<open>Errors\<close>

datatype error =
    SizeMismatch      \<comment> \<open>SimTK vector arithmetic on vectors of different sizes\<close>
  | IndexOutOfRange   \<comment> \<open>a write past the end of a fixed-size \<open>Vec\<close>\<close>

definition and_then :: "error + 'a \<Rightarrow> ('a \<Rightarrow> error + 'b) \<Rightarrow> error + 'b" where
  "and_then r f = (case r of Inl e \<Rightarrow> Inl e | Inr x \<Rightarrow> f x)"

subsection \<open>SimTK vectors\<close>

type_synonym Vector = "real list"
type_synonym Matrix = "real list list"
type_synonym Vec3 = "real \<times> real \<times> real"
type_synonym SpatialVec = "Vec3 \<times> Vec3"

definition Vec3_zero :: Vec3 where
  "Vec3_zero = (0, 0, 0)"

definition SpatialVec_zero :: SpatialVec where
  "SpatialVec_zero = (Vec3_zero, Vec3_zero)"

text \<open>\<open>operator+\<close> and \<open>operator-\<close> of two \<open>Vector\<close>s need operands of one size.\<close>

definition vec_add :: "Vector \<Rightarrow> Vector \<Rightarrow> error + Vector" where
  "vec_add a b = (if length a = length b then Inr (map2 (+) a b) else Inl SizeMismatch)"

definition vec_sub :: "Vector \<Rightarrow> Vector \<Rightarrow> error + Vector" where
  "vec_sub a b = (if length a = length b then Inr (map2 (-) a b) else Inl SizeMismatch)"

text \<open>A sized array read out as a vector of its first \<open>n\<close> entries.\<close>

definition as_vector :: "nat \<Rightarrow> (nat \<Rightarrow> 'a) \<Rightarrow> 'a list" where
  "as_vector n a = map a [0..<n]"

subsection \<open>The consistency sums (lines 386--392)\<close>

text \<open>
  \<open>residualForce = gravityTorques - inertiaTorques + dynamics - coriolisTorques
     + rightGRFTorques + leftGRFTorques\<close>, evaluated left to right.
\<close>

definition residualForce ::
  "Vector \<Rightarrow> Vector \<Rightarrow> Vector \<Rightarrow> Vector \<Rightarrow> Vector \<Rightarrow> Vector \<Rightarrow> error + Vector" where
  "residualForce gravityTorques inertiaTorques dynamics coriolisTorques
      rightGRFTorques leftGRFTorques =
     and_then (and_then (and_then (and_then
       (vec_sub gravityTorques inertiaTorques)
       (\<lambda>x. vec_add x dynamics))
       (\<lambda>x. vec_sub x coriolisTorques))
       (\<lambda>x. vec_add x rightGRFTorques))
       (\<lambda>x. vec_add x leftGRFTorques)"

text \<open>
  \<open>internalForce = inertiaTorques - gravityTorques + coriolisTorques - rightGRFTorques
     - leftGRFTorques\<close>.
\<close>

definition internalForce ::
  "Vector \<Rightarrow> Vector \<Rightarrow> Vector \<Rightarrow> Vector \<Rightarrow> Vector \<Rightarrow> error + Vector" where
  "internalForce inertiaTorques gravityTorques coriolisTorques
      rightGRFTorques leftGRFTorques =
     and_then (and_then (and_then
       (vec_sub inertiaTorques gravityTorques)
       (\<lambda>x. vec_add x coriolisTorques))
       (\<lambda>x. vec_sub x rightGRFTorques))
       (\<lambda>x. vec_sub x leftGRFTorques)"

subsection \<open>The same sums in double arithmetic\<close>

text \<open>
  IEEE 754 \<open>binary64\<close> rounds the exact result of every addition and subtraction to the nearest
  number with a significand of 53 bits, a tie to the one whose significand is even.
  \<open>round_double\<close> is that rounding for results in the normal range (no overflow, no
  subnormal number): the result is scaled so that its integer part has 53 bits, rounded to
  an integer and scaled back.
\<close>

definition round_half_even :: "real \<Rightarrow> int" where
  "round_half_even y =
     (let f = \<lfloor>y\<rfloor>
      in if y - of_int f < 1 / 2 then f
         else if 1 / 2 < y - of_int f then f + 1
         else if even f then f else f + 1)"

definition round_double :: "real \<Rightarrow> real" where
  "round_double x =
     (if x = 0 then 0
      else let e = \<lfloor>log 2 \<bar>x\<bar>\<rfloor> - 52
           in of_int (round_half_even (x / 2 powr of_int e)) * 2 powr of_int e)"

text \<open>
  \<open>operator+\<close> and \<open>operator-\<close> on vectors of doubles, and the two sums of lines 387--392 with
  them: every operation rounds.
\<close>

definition vec_add_double :: "Vector \<Rightarrow> Vector \<Rightarrow> error + Vector" where
  "vec_add_double a b =
     (if length a = length b then Inr (map2 (\<lambda>x y. round_double (x + y)) a b)
      else Inl SizeMismatch)"

definition vec_sub_double :: "Vector \<Rightarrow> Vector \<Rightarrow> error + Vector" where
  "vec_sub_double a b =
     (if length a = length b then Inr (map2 (\<lambda>x y. round_double (x - y)) a b)
      else Inl SizeMismatch)"

definition residualForce_double ::
  "Vector \<Rightarrow> Vector \<Rightarrow> Vector \<Rightarrow> Vector \<Rightarrow> Vector \<Rightarrow> Vector \<Rightarrow> error + Vector" where
  "residualForce_double gravityTorques inertiaTorques dynamics coriolisTorques
      rightGRFTorques leftGRFTorques =
     and_then (and_then (and_then (and_then
       (vec_sub_double gravityTorques inertiaTorques)
       (\<lambda>x. vec_add_double x dynamics))
       (\<lambda>x. vec_sub_double x coriolisTorques))
       (\<lambda>x. vec_add_double x rightGRFTorques))
       (\<lambda>x. vec_add_double x leftGRFTorques)"

definition internalForce_double ::
  "Vector \<Rightarrow> Vector \<Rightarrow> Vector \<Rightarrow> Vector \<Rightarrow> Vector \<Rightarrow> error + Vector" where
  "internalForce_double inertiaTorques gravityTorques coriolisTorques
      rightGRFTorques leftGRFTorques =
     and_then (and_then (and_then
       (vec_sub_double inertiaTorques gravityTorques)
       (\<lambda>x. vec_add_double x coriolisTorques))
       (\<lambda>x. vec_sub_double x rightGRFTorques))
       (\<lambda>x. vec_sub_double x leftGRFTorques)"

subsection \<open>Input streams\<close>

text \<open>
  A \<open>std::ifstream\<close> read with \<open>operator>>\<close> into a \<open>double\<close>. The file is seen as its
  whitespace-separated tokens, each by what the extraction does at it:
  \<^item> \<open>Num r\<close> is a numeral that converts to a \<open>double\<close>, \<open>r\<close> its value;
  \<^item> \<open>Bad scanned v\<close> is text at which the conversion fails and \<open>v\<close> is stored.
    \<open>scanned\<close> says that the extraction reads the token to its end before it fails (a lone
    sign, an unfinished exponent, a numeral out of the range of \<open>double\<close>), so that it reaches
    the end of a file that stops there; at other text (a letter) it stops at the first
    character.
  \<open>trailing_ws\<close> says whether whitespace follows the last token (a final newline).
  \<open>eofbit\<close> and \<open>failbit\<close> are the stream's state flags; the program never clears them.
\<close>

datatype token = Num real | Bad bool real

record istream =
  toks :: "token list"
  trailing_ws :: bool
  eofbit :: bool
  failbit :: bool

text \<open>
  The token of a numeral of value \<open>r\<close>. The largest \<open>double\<close> is \<open>DBL_MAX\<close>; the conversion
  rounds to nearest, so it overflows from half a unit in the last place above \<open>DBL_MAX\<close>
  on. An overflowing numeral fails and stores the largest \<open>double\<close> with its sign.
\<close>

definition DBL_MAX :: real where
  "DBL_MAX = 2 ^ 1024 - 2 ^ 971"

definition double_overflow :: real where
  "double_overflow = 2 ^ 1024 - 2 ^ 970"

definition numeral_token :: "real \<Rightarrow> token" where
  "numeral_token r =
     (if \<bar>r\<bar> < double_overflow then Num r
      else Bad True (if 0 < r then DBL_MAX else - DBL_MAX))"

text \<open>
  The numerals that convert under every library: zero, and the values of the normal range.
  (What a numeral below the smallest normal \<open>double\<close> does depends on the library.)
\<close>

definition DBL_MIN :: real where
  "DBL_MIN = 1 / 2 ^ 1022"

definition in_double_range :: "real \<Rightarrow> bool" where
  "in_double_range r \<longleftrightarrow> r = 0 \<or> (DBL_MIN \<le> \<bar>r\<bar> \<and> \<bar>r\<bar> < double_overflow)"

text \<open>
  \<open>file >> x\<close> has two effects, on the stream and on \<open>x\<close>.
  \<^item> With a flag already set nothing is extracted: \<open>failbit\<close> is set, \<open>x\<close> keeps its value.
  \<^item> With no token left, skipping whitespace reaches the end: both flags are set, \<open>x\<close> keeps
    its value.
  \<^item> A number is consumed and stored; reading the last token of a file with no whitespace
    after it sets \<open>eofbit\<close>.
  \<^item> At any other text the conversion fails: \<open>failbit\<close> is set and the value of the token
    is stored; \<open>eofbit\<close> is set with it when the token was read to its end and the file
    stops there. The rest of the file is never read: every later extraction finds
    \<open>failbit\<close> set.
\<close>

definition advance :: "istream \<Rightarrow> istream" where
  "advance s =
     (if eofbit s \<or> failbit s then s\<lparr>failbit := True\<rparr>
      else case toks s of
             [] \<Rightarrow> s\<lparr>eofbit := True, failbit := True\<rparr>
           | Bad scanned v # ts \<Rightarrow>
               s\<lparr>failbit := True, eofbit := (scanned \<and> ts = [] \<and> \<not> trailing_ws s)\<rparr>
           | Num x # ts \<Rightarrow> s\<lparr>toks := ts, eofbit := (ts = [] \<and> \<not> trailing_ws s)\<rparr>)"

definition extracted :: "istream \<Rightarrow> real \<Rightarrow> real" where
  "extracted s v =
     (if eofbit s \<or> failbit s then v
      else case toks s of
             [] \<Rightarrow> v
           | Bad scanned w # ts \<Rightarrow> w
           | Num x # ts \<Rightarrow> x)"

subsection \<open>The multibody engine\<close>

text \<open>
  The operations of the OpenSim model that \<open>main\<close> calls. The realized state \<open>si\<close> is the
  vector of state values handed to \<open>setStateValues\<close>.
\<close>

record engine =
  numMobilities :: nat
  numBodies :: nat
  bodyName :: "nat \<Rightarrow> string"
  multiplyByM :: "Vector \<Rightarrow> Vector \<Rightarrow> Vector"
  gravityBodyForces :: "Vector \<Rightarrow> SpatialVec list"
  multiplyBySystemJacobianTranspose :: "Vector \<Rightarrow> SpatialVec list \<Rightarrow> Vector"
  getTotalCentrifugalForces :: "Vector \<Rightarrow> nat \<Rightarrow> SpatialVec"
  transformPosition :: "Vector \<Rightarrow> nat \<Rightarrow> Vec3 \<Rightarrow> nat \<Rightarrow> Vec3"
  multiplyByFrameJacobianTranspose :: "Vector \<Rightarrow> nat \<Rightarrow> Vec3 \<Rightarrow> SpatialVec \<Rightarrow> Vector"
  calcFrameJacobian :: "Vector \<Rightarrow> nat \<Rightarrow> Vec3 \<Rightarrow> Matrix"

subsection \<open>The state of the frame loop\<close>

record loop_state =
  grfs_file :: istream
  states_file :: istream
  accelerations_file :: istream
  dynamics_file :: istream
  time :: real
  states :: "nat \<Rightarrow> real"
  accelerations :: "nat \<Rightarrow> real"
  dynamics :: "nat \<Rightarrow> real"
  grfs :: "nat \<Rightarrow> real"
  first_frame :: bool
  leftAPOJacobian_file :: Matrix
  rightAPOJacobian_file :: Matrix
  residualForce_file :: Matrix
  internalForce_file :: Matrix

subsection \<open>Reading one frame (lines 174--205)\<close>

definition read_time_tags :: "loop_state \<Rightarrow> loop_state" where
  "read_time_tags st =
     (let t1 = extracted (grfs_file st) (time st);
          t2 = extracted (states_file st) t1;
          t3 = extracted (accelerations_file st) t2;
          t4 = extracted (dynamics_file st) t3
      in st\<lparr>grfs_file := advance (grfs_file st),
             states_file := advance (states_file st),
             accelerations_file := advance (accelerations_file st),
             dynamics_file := advance (dynamics_file st),
             time := t4\<rparr>)"

definition expectedGRFSize :: nat where
  "expectedGRFSize = 18"

definition read_grf :: "loop_state \<Rightarrow> nat \<Rightarrow> loop_state" where
  "read_grf st j =
     st\<lparr>grfs_file := advance (grfs_file st),
        grfs := (grfs st)(j := extracted (grfs_file st) (grfs st j))\<rparr>"

text \<open>\<open>accelerations[j] * (std::atan(1)*4)/180.0\<close>\<close>

definition to_radians :: "real \<Rightarrow> real" where
  "to_radians a = a * (arctan 1 * 4) / 180"

definition read_dof :: "nat \<Rightarrow> loop_state \<Rightarrow> nat \<Rightarrow> loop_state" where
  "read_dof n_dofs st j =
     (if j < n_dofs then
        let d = extracted (dynamics_file st) (dynamics st j);
            a = extracted (accelerations_file st) (accelerations st j);
            a' = (if j < 3 \<or> j > 5 then to_radians a else a)
        in st\<lparr>dynamics_file := advance (dynamics_file st),
               dynamics := (dynamics st)(j := d),
               accelerations_file := advance (accelerations_file st),
               accelerations := (accelerations st)(j := a'),
               states_file := advance (states_file st),
               states := (states st)(j := extracted (states_file st) (states st j))\<rparr>
      else
        st\<lparr>states_file := advance (states_file st),
           states := (states st)(j := extracted (states_file st) (states st j))\<rparr>)"

definition read_payload :: "nat \<Rightarrow> loop_state \<Rightarrow> loop_state" where
  "read_payload n_dofs st =
     foldl (read_dof n_dofs) (foldl read_grf st [0..<expectedGRFSize]) [0..<2 * n_dofs]"

subsection \<open>The torque contributions of one frame (lines 211--366)\<close>

record frame_forces =
  inertiaTorques :: Vector
  gravityTorques :: Vector
  coriolisTorques :: Vector
  rightGRFTorques :: Vector
  leftGRFTorques :: Vector
  rightAPOJacobian :: Matrix
  leftAPOJacobian :: Matrix

text \<open>
  \<open>SimTK::Vec<18, SpatialVec> totalCentrifugalForces\<close>: a write at index \<open>j\<close> is inside the
  buffer for \<open>j < 18\<close> only.
\<close>

definition centrifugal_capacity :: nat where
  "centrifugal_capacity = 18"

definition set_slot ::
  "(nat \<Rightarrow> SpatialVec) \<Rightarrow> nat \<Rightarrow> SpatialVec \<Rightarrow> error + (nat \<Rightarrow> SpatialVec)" where
  "set_slot buf j v =
     (if j < centrifugal_capacity then Inr (buf(j := v)) else Inl IndexOutOfRange)"

text \<open>
  Slot 0 (ground) is zeroed, slots \<open>1 .. n_bodies - 1\<close> are copied from the engine; the other
  slots keep the content \<open>uninit\<close> that the buffer had when it was declared.
\<close>

definition totalCentrifugalForces ::
  "engine \<Rightarrow> Vector \<Rightarrow> (nat \<Rightarrow> SpatialVec) \<Rightarrow> error + (nat \<Rightarrow> SpatialVec)" where
  "totalCentrifugalForces e si uninit =
     foldl (\<lambda>acc j. and_then acc (\<lambda>buf. set_slot buf j (getTotalCentrifugalForces e si j)))
       (set_slot uninit 0 SpatialVec_zero) [1..<numBodies e]"

text \<open>The \<open>Vector_<SpatialVec>\<close> built from the whole buffer and handed to the engine.\<close>

definition totalCentrifugalForces_reference ::
  "engine \<Rightarrow> Vector \<Rightarrow> (nat \<Rightarrow> SpatialVec) \<Rightarrow> error + SpatialVec list" where
  "totalCentrifugalForces_reference e si uninit =
     and_then (totalCentrifugalForces e si uninit)
       (\<lambda>buf. Inr (as_vector centrifugal_capacity buf))"

text \<open>The six 3-vectors of the 18 contact channels (lines 265--272).\<close>

definition vec3_at :: "(nat \<Rightarrow> real) \<Rightarrow> nat \<Rightarrow> Vec3" where
  "vec3_at g k = (g k, g (k + 1), g (k + 2))"

definition groundRightForce :: "(nat \<Rightarrow> real) \<Rightarrow> Vec3" where
  "groundRightForce g = vec3_at g 0"

definition groundRightCOP :: "(nat \<Rightarrow> real) \<Rightarrow> Vec3" where
  "groundRightCOP g = vec3_at g 3"

definition groundLeftForce :: "(nat \<Rightarrow> real) \<Rightarrow> Vec3" where
  "groundLeftForce g = vec3_at g 6"

definition groundLeftCOP :: "(nat \<Rightarrow> real) \<Rightarrow> Vec3" where
  "groundLeftCOP g = vec3_at g 9"

definition groundRightMoment :: "(nat \<Rightarrow> real) \<Rightarrow> Vec3" where
  "groundRightMoment g = vec3_at g 12"

definition groundLeftMoment :: "(nat \<Rightarrow> real) \<Rightarrow> Vec3" where
  "groundLeftMoment g = vec3_at g 15"

definition orthosisCOP :: Vec3 where
  "orthosisCOP = (0, - 35 / 100, 0)"

text \<open>
  One round of the loop over the bodies (lines 282--366): the body's name selects at most one
  of the four computations.
\<close>

definition body_step ::
  "engine \<Rightarrow> Vector \<Rightarrow> (nat \<Rightarrow> real) \<Rightarrow> frame_forces \<Rightarrow> nat \<Rightarrow> frame_forces" where
  "body_step e si g f j =
     (if bodyName e j = ''calcn_r'' then
        let rCalcSpatial = (groundRightMoment g, groundRightForce g);
            rCalcCOP = transformPosition e si 0 (groundRightCOP g) j
        in f\<lparr>rightGRFTorques := multiplyByFrameJacobianTranspose e si j rCalcCOP rCalcSpatial\<rparr>
      else if bodyName e j = ''calcn_l'' then
        let lCalcSpatial = (groundLeftMoment g, groundLeftForce g);
            lCalcCOP = transformPosition e si 0 (groundLeftCOP g) j
        in f\<lparr>leftGRFTorques := multiplyByFrameJacobianTranspose e si j lCalcCOP lCalcSpatial\<rparr>
      else if bodyName e j = ''femur_r'' then
        f\<lparr>rightAPOJacobian := calcFrameJacobian e si j orthosisCOP\<rparr>
      else if bodyName e j = ''femur_l'' then
        f\<lparr>leftAPOJacobian := calcFrameJacobian e si j orthosisCOP\<rparr>
      else f)"

text \<open>
  The contributions of a frame, from the realized state, the accelerations and the contact
  channels. The four results of the body loop start as default-constructed, empty values.
\<close>

definition compute_frame ::
  "engine \<Rightarrow> (nat \<Rightarrow> SpatialVec) \<Rightarrow> Vector \<Rightarrow> Vector \<Rightarrow> (nat \<Rightarrow> real)
     \<Rightarrow> error + frame_forces" where
  "compute_frame e uninit si acc g =
     and_then (totalCentrifugalForces_reference e si uninit) (\<lambda>F.
       Inr (foldl (body_step e si g)
             \<lparr>inertiaTorques = multiplyByM e si acc,
              gravityTorques = multiplyBySystemJacobianTranspose e si (gravityBodyForces e si),
              coriolisTorques = multiplyBySystemJacobianTranspose e si F,
              rightGRFTorques = [],
              leftGRFTorques = [],
              rightAPOJacobian = [],
              leftAPOJacobian = []\<rparr>
             [0..<numBodies e]))"

subsection \<open>Writing the outputs of a frame (lines 377--401)\<close>

text \<open>
  An output file is the list of the rows written to it. \<open>writeMatrixTimeless\<close> appends the
  rows of the matrix, \<open>writeVectorTimeless\<close> one row.
\<close>

definition write_outputs :: "nat \<Rightarrow> frame_forces \<Rightarrow> loop_state \<Rightarrow> error + loop_state" where
  "write_outputs n_dofs f st =
     (if \<not> first_frame st then
        and_then (residualForce (gravityTorques f) (inertiaTorques f)
                    (as_vector n_dofs (dynamics st)) (coriolisTorques f)
                    (rightGRFTorques f) (leftGRFTorques f)) (\<lambda>residual.
        and_then (internalForce (inertiaTorques f) (gravityTorques f) (coriolisTorques f)
                    (rightGRFTorques f) (leftGRFTorques f)) (\<lambda>internal.
          Inr (st\<lparr>leftAPOJacobian_file := leftAPOJacobian_file st @ leftAPOJacobian f,
                  rightAPOJacobian_file := rightAPOJacobian_file st @ rightAPOJacobian f,
                  residualForce_file := residualForce_file st @ [residual],
                  internalForce_file := internalForce_file st @ [internal]\<rparr>)))
      else Inr (st\<lparr>first_frame := False\<rparr>))"

subsection \<open>The frame loop (lines 170--418)\<close>

text \<open>
  One frame: read the payload, realize the state, compute the contributions, write.
\<close>

definition process_frame ::
  "engine \<Rightarrow> (nat \<Rightarrow> SpatialVec) \<Rightarrow> loop_state \<Rightarrow> error + loop_state" where
  "process_frame e uninit st =
     (let n_dofs = numMobilities e;
          st' = read_payload n_dofs st
      in and_then
           (compute_frame e uninit (as_vector (2 * n_dofs) (states st'))
              (as_vector n_dofs (accelerations st')) (grfs st'))
           (\<lambda>f. write_outputs n_dofs f st'))"

text \<open>
  \<open>while (true)\<close> leaves by the \<open>break\<close> after the time tags only. The loop is given fuel: the
  result \<open>None\<close> says that the fuel did not suffice. \<open>Some (Inr st)\<close> is the state at the
  \<open>break\<close>, \<open>Some (Inl err)\<close> a frame that failed.
\<close>

fun frame_loop ::
  "nat \<Rightarrow> engine \<Rightarrow> (nat \<Rightarrow> SpatialVec) \<Rightarrow> loop_state \<Rightarrow> (error + loop_state) option" where
  "frame_loop 0 e uninit st = None"
| "frame_loop (Suc fuel) e uninit st =
     (let st1 = read_time_tags st
      in if eofbit (states_file st1) then Some (Inr st1)
         else case process_frame e uninit st1 of
                Inl err \<Rightarrow> Some (Inl err)
              | Inr st2 \<Rightarrow> frame_loop fuel e uninit st2)"

subsection \<open>\<open>main\<close> (lines 86--445)\<close>

text \<open>
  What a run depends on besides its arguments: the model a path loads (\<open>None\<close> when loading
  throws), the stream a path opens, the check of the optional seventh argument (line 103),
  and the content of the arrays before they are written.
\<close>

record world =
  load_model :: "string \<Rightarrow> engine option"
  open_input :: "string \<Rightarrow> istream"
  flag_ok :: "string \<Rightarrow> bool"
  uninit_time :: real
  uninit_states :: "nat \<Rightarrow> real"
  uninit_accelerations :: "nat \<Rightarrow> real"
  uninit_dynamics :: "nat \<Rightarrow> real"
  uninit_grfs :: "nat \<Rightarrow> real"
  uninit_centrifugal :: "nat \<Rightarrow> SpatialVec"

datatype outcome = Exit int | Crashed error

record run =
  outcome :: outcome
  model_loaded :: bool
  outputs_opened :: bool
  final_state :: "loop_state option"

text \<open>\<open>return 1\<close> before the model is there and before the output files are opened.\<close>

definition early_exit :: run where
  "early_exit =
     \<lparr>outcome = Exit 1, model_loaded = False, outputs_opened = False, final_state = None\<rparr>"

definition initial_state :: "world \<Rightarrow> (nat \<Rightarrow> string) \<Rightarrow> loop_state" where
  "initial_state w argv =
     \<lparr>grfs_file = open_input w (argv 2),
      states_file = open_input w (argv 3),
      accelerations_file = open_input w (argv 4),
      dynamics_file = open_input w (argv 5),
      time = uninit_time w,
      states = uninit_states w,
      accelerations = uninit_accelerations w,
      dynamics = uninit_dynamics w,
      grfs = uninit_grfs w,
      first_frame = True,
      leftAPOJacobian_file = [],
      rightAPOJacobian_file = [],
      residualForce_file = [],
      internalForce_file = []\<rparr>"

definition main :: "world \<Rightarrow> nat \<Rightarrow> nat \<Rightarrow> (nat \<Rightarrow> string) \<Rightarrow> run option" where
  "main w fuel argc argv =
     (if argc < 7 then Some early_exit
      else if argc > 8 then Some early_exit
      else if argc = 8 \<and> \<not> flag_ok w (argv 7) then Some early_exit
      else case load_model w (argv 1) of
             None \<Rightarrow> Some early_exit
           | Some e \<Rightarrow>
               (case frame_loop fuel e (uninit_centrifugal w) (initial_state w argv) of
                  None \<Rightarrow> None
                | Some (Inl err) \<Rightarrow>
                    Some \<lparr>outcome = Crashed err, model_loaded = True,
                          outputs_opened = True, final_state = None\<rparr>
                | Some (Inr st) \<Rightarrow>
                    Some \<lparr>outcome = Exit 0, model_loaded = True,
                          outputs_opened = True, final_state = Some st\<rparr>))"

subsection \<open>Auxiliary notions\<close>

text \<open>A stream on which no extraction has failed; at end-of-file it has no token left.\<close>

definition stream_ok :: "istream \<Rightarrow> bool" where
  "stream_ok s \<longleftrightarrow> \<not> failbit s \<and> (eofbit s \<longrightarrow> toks s = [])"

text \<open>The unit conversion of line 195, by index.\<close>

definition convert_at :: "nat \<Rightarrow> real \<Rightarrow> real" where
  "convert_at j a = (if j < 3 \<or> j > 5 then to_radians a else a)"

text \<open>
  Assumed of an engine where a theorem says so: multiplying zero accelerations by the mass
  matrix gives zero, the centrifugal forces vanish when the velocity half of the state is
  zero, and the two Jacobian-transpose maps send forces that are zero on every body of the
  model to the zero vector of length \<open>n\<close>.
\<close>

definition zero_preserving :: "engine \<Rightarrow> bool" where
  "zero_preserving e \<longleftrightarrow>
     (\<forall>s. multiplyByM e s (replicate (numMobilities e) 0) = replicate (numMobilities e) 0)
   \<and> (\<forall>s b. length s = 2 * numMobilities e
          \<and> (\<forall>j. numMobilities e \<le> j \<and> j < 2 * numMobilities e \<longrightarrow> s ! j = 0)
          \<longrightarrow> getTotalCentrifugalForces e s b = SpatialVec_zero)
   \<and> (\<forall>s F. (\<forall>b<numBodies e. F ! b = SpatialVec_zero)
          \<longrightarrow> multiplyBySystemJacobianTranspose e s F = replicate (numMobilities e) 0)
   \<and> (\<forall>s b p. multiplyByFrameJacobianTranspose e s b p SpatialVec_zero
          = replicate (numMobilities e) 0)"

subsection \<open>Frames of input and the rows expected for them\<close>

text \<open>
  One aligned frame of the four input files: the time tag that opens its row in every file,
  and the payload of the row in each file.
\<close>

record frame =
  time_tag :: real
  grf_row :: "real list"
  state_row :: "real list"
  acc_row :: "real list"
  torque_row :: "real list"

definition well_formed :: "nat \<Rightarrow> frame \<Rightarrow> bool" where
  "well_formed n fr \<longleftrightarrow>
     length (grf_row fr) = expectedGRFSize \<and> length (state_row fr) = 2 * n
     \<and> length (acc_row fr) = n \<and> length (torque_row fr) = n"

text \<open>The tokens of a file that holds the given frames, row after row.\<close>

definition row_tokens :: "(frame \<Rightarrow> real list) \<Rightarrow> frame list \<Rightarrow> token list" where
  "row_tokens payload frs = concat (map (\<lambda>fr. Num (time_tag fr) # map Num (payload fr)) frs)"

text \<open>The four streams of a loop state hold exactly the given frames, unread.\<close>

definition holds_frames :: "loop_state \<Rightarrow> frame list \<Rightarrow> bool" where
  "holds_frames st frs \<longleftrightarrow>
     stream_ok (grfs_file st) \<and> toks (grfs_file st) = row_tokens grf_row frs
   \<and> stream_ok (states_file st) \<and> toks (states_file st) = row_tokens state_row frs
   \<and> stream_ok (accelerations_file st) \<and> toks (accelerations_file st) = row_tokens acc_row frs
   \<and> stream_ok (dynamics_file st) \<and> toks (dynamics_file st) = row_tokens torque_row frs"

text \<open>
  A model the program is written for: at least one degree of freedom, no more bodies than
  the centrifugal buffer has slots, bodies named \<open>calcn_r\<close> and \<open>calcn_l\<close>, and an engine
  whose generalized forces have length \<open>n\<close>.
\<close>

definition supported_model :: "engine \<Rightarrow> bool" where
  "supported_model e \<longleftrightarrow>
     0 < numMobilities e \<and> numBodies e \<le> centrifugal_capacity
   \<and> (\<exists>j<numBodies e. bodyName e j = ''calcn_r'')
   \<and> (\<exists>j<numBodies e. bodyName e j = ''calcn_l'')
   \<and> (\<forall>s a. length a = numMobilities e \<longrightarrow> length (multiplyByM e s a) = numMobilities e)
   \<and> (\<forall>s F. length (multiplyBySystemJacobianTranspose e s F) = numMobilities e)
   \<and> (\<forall>s b p w. length (multiplyByFrameJacobianTranspose e s b p w) = numMobilities e)"

text \<open>
  What is expected in the output files for one frame, from the data of that frame alone: the
  two Jacobians and the two sums of the contributions computed at the frame's state, its
  converted accelerations, its contact channels and its measured torques.
\<close>

record frame_output =
  left_block :: Matrix
  right_block :: Matrix
  residual_row :: Vector
  internal_row :: Vector

definition realized_accelerations :: "frame \<Rightarrow> Vector" where
  "realized_accelerations fr =
     map (\<lambda>j. convert_at j (acc_row fr ! j)) [0..<length (acc_row fr)]"

definition frame_rows :: "engine \<Rightarrow> (nat \<Rightarrow> SpatialVec) \<Rightarrow> frame \<Rightarrow> error + frame_output" where
  "frame_rows e uninit fr =
     and_then (compute_frame e uninit (state_row fr) (realized_accelerations fr)
                 (\<lambda>j. grf_row fr ! j)) (\<lambda>f.
     and_then (residualForce (gravityTorques f) (inertiaTorques f) (torque_row fr)
                 (coriolisTorques f) (rightGRFTorques f) (leftGRFTorques f)) (\<lambda>residual.
     and_then (internalForce (inertiaTorques f) (gravityTorques f) (coriolisTorques f)
                 (rightGRFTorques f) (leftGRFTorques f)) (\<lambda>internal.
       Inr \<lparr>left_block = leftAPOJacobian f, right_block = rightAPOJacobian f,
            residual_row = residual, internal_row = internal\<rparr>)))"

text \<open>
  A stream whose tokens all convert, on which a failure can only be the end of the file; and
  a stream that has failed before the end of the file.
\<close>

definition all_convert :: "istream \<Rightarrow> bool" where
  "all_convert s \<longleftrightarrow> (\<forall>t\<in>set (toks s). \<exists>r. t = Num r) \<and> (failbit s \<longrightarrow> eofbit s)"

definition stuck :: "istream \<Rightarrow> bool" where
  "stuck s \<longleftrightarrow> failbit s \<and> \<not> eofbit s"

subsection \<open>Concrete inputs\<close>

text \<open>The stream of a file that was opened and ends with a newline.\<close>

definition opened :: "token list \<Rightarrow> istream" where
  "opened ts = \<lparr>toks = ts, trailing_ws = True, eofbit = False, failbit = False\<rparr>"

definition force_y :: "SpatialVec \<Rightarrow> real" where
  "force_y w = fst (snd (snd w))"

text \<open>
  A model with one degree of freedom and unit mass, the ground and the four named bodies;
  a generalized force is the sum of the vertical body forces.
\<close>

definition demo_engine :: engine where
  "demo_engine =
     \<lparr>numMobilities = 1,
      numBodies = 5,
      bodyName = (\<lambda>j. if j = 1 then ''calcn_r'' else if j = 2 then ''calcn_l''
                       else if j = 3 then ''femur_r'' else if j = 4 then ''femur_l''
                       else ''ground''),
      multiplyByM = (\<lambda>s a. a),
      gravityBodyForces = (\<lambda>s. replicate 5 (Vec3_zero, (0, - 1, 0))),
      multiplyBySystemJacobianTranspose =
        (\<lambda>s F. [force_y (F ! 0) + force_y (F ! 1) + force_y (F ! 2) + force_y (F ! 3)
                 + force_y (F ! 4)]),
      getTotalCentrifugalForces = (\<lambda>s b. (Vec3_zero, (0, s ! 1 * s ! 1, 0))),
      transformPosition = (\<lambda>s a p b. p),
      multiplyByFrameJacobianTranspose = (\<lambda>s b p w. [force_y w]),
      calcFrameJacobian = (\<lambda>s b p. [[0], [0], [1], [0], [1], [0]])\<rparr>"

definition idle_state :: loop_state where
  "idle_state =
     \<lparr>grfs_file = opened [], states_file = opened [], accelerations_file = opened [],
      dynamics_file = opened [], time = 0, states = (\<lambda>j. 0), accelerations = (\<lambda>j. 0),
      dynamics = (\<lambda>j. 0), grfs = (\<lambda>j. 0), first_frame = False,
      leftAPOJacobian_file = [], rightAPOJacobian_file = [], residualForce_file = [],
      internalForce_file = []\<rparr>"

definition demo_forces :: frame_forces where
  "demo_forces =
     \<lparr>inertiaTorques = [1], gravityTorques = [2], coriolisTorques = [3],
      rightGRFTorques = [4], leftGRFTorques = [5],
      rightAPOJacobian = [[6]], leftAPOJacobian = [[7]]\<rparr>"

definition seven_dof_state :: loop_state where
  "seven_dof_state =
     idle_state
       \<lparr>accelerations_file := opened (map Num [180, 180, 180, 180, 180, 180, 180]),
        dynamics_file := opened (map Num [1, 2, 3, 4, 5, 6, 7]),
        states_file := opened (map Num [1, 2, 3, 4, 5, 6, 7, 8, 9, 10, 11, 12, 13, 14])\<rparr>"

text \<open>The model without any of the four names, and without \<open>calcn_r\<close> only.\<close>

definition anonymous_engine :: engine where
  "anonymous_engine = demo_engine\<lparr>bodyName := (\<lambda>j. ''body'')\<rparr>"

definition one_foot_engine :: engine where
  "one_foot_engine =
     demo_engine\<lparr>bodyName := (\<lambda>j. if j = 1 then ''foot_r'' else bodyName demo_engine j)\<rparr>"

text \<open>
  Three frames for the one-degree-of-freedom model, the files that hold them, a states file
  that holds the text \<open>abc\<close> and one that holds the numerals \<open>1e309\<close> and \<open>5\<close>.
\<close>

definition demo_frames :: "frame list" where
  "demo_frames =
     [\<lparr>time_tag = 0, grf_row = replicate 18 0, state_row = [0, 0], acc_row = [0],
       torque_row = [0]\<rparr>,
      \<lparr>time_tag = 1, grf_row = replicate 18 0, state_row = [0, 0], acc_row = [180],
       torque_row = [0]\<rparr>,
      \<lparr>time_tag = 2, grf_row = replicate 18 0, state_row = [0, 0], acc_row = [0],
       torque_row = [0]\<rparr>]"

definition demo_start :: loop_state where
  "demo_start =
     idle_state
       \<lparr>grfs_file := opened (row_tokens grf_row demo_frames),
        states_file := opened (row_tokens state_row demo_frames),
        accelerations_file := opened (row_tokens acc_row demo_frames),
        dynamics_file := opened (row_tokens torque_row demo_frames),
        first_frame := True\<rparr>"

definition text_state :: loop_state where
  "text_state = idle_state\<lparr>states_file := opened [Bad False 0], first_frame := True\<rparr>"

definition overflow_state :: loop_state where
  "overflow_state =
     idle_state\<lparr>states_file := opened (map numeral_token [10 ^ 309, 5]), first_frame := True\<rparr>"

definition demo_jacobian :: Matrix where
  "demo_jacobian = [[0], [0], [1], [0], [1], [0]]"

section \<open>Properties\<close>

subsection \<open>Vectors and the consistency sums\<close>

lemma and_then_Inl [simp]: "and_then (Inl x) f = Inl x"
  by (simp add: and_then_def)

lemma and_then_Inr [simp]: "and_then (Inr x) f = f x"
  by (simp add: and_then_def)

lemma residualForce_conformant:
  assumes "length g = n" "length i = n" "length d = n" "length c = n" "length r = n" "length l = n"
  shows "residualForce g i d c r l =
           Inr (map (\<lambda>j. g ! j - i ! j + d ! j - c ! j + r ! j + l ! j) [0..<n])"
  using assms
  by (auto simp: residualForce_def and_then_def vec_add_def vec_sub_def intro!: nth_equalityI)

lemma internalForce_conformant:
  assumes "length g = n" "length i = n" "length c = n" "length r = n" "length l = n"
  shows "internalForce i g c r l =
           Inr (map (\<lambda>j. i ! j - g ! j + c ! j - r ! j - l ! j) [0..<n])"
  using assms
  by (auto simp: internalForce_def and_then_def vec_add_def vec_sub_def intro!: nth_equalityI)

lemma as_vector_length [simp]: "length (as_vector n a) = n"
  by (simp add: as_vector_def)

lemma as_vector_nth [simp]: "j < n \<Longrightarrow> as_vector n a ! j = a j"
  by (simp add: as_vector_def)

text \<open>
  Claim C1. In every frame whose outputs are written, the residual row is
  gravity - inertia + measured torque - Coriolis + right contact + left contact and the
  internal-force row is inertia - gravity + Coriolis - right contact - left contact,
  component by component, the measured torque being the frame's \<open>dynamics\<close> vector.
\<close>

theorem residual_internal_signs:
  assumes "\<not> first_frame st"
    and "length (gravityTorques f) = n" and "length (inertiaTorques f) = n"
    and "length (coriolisTorques f) = n" and "length (rightGRFTorques f) = n"
    and "length (leftGRFTorques f) = n"
  shows "write_outputs n f st =
    Inr (st\<lparr>leftAPOJacobian_file := leftAPOJacobian_file st @ leftAPOJacobian f,
            rightAPOJacobian_file := rightAPOJacobian_file st @ rightAPOJacobian f,
            residualForce_file := residualForce_file st @
              [map (\<lambda>j. gravityTorques f ! j - inertiaTorques f ! j + dynamics st j
                        - coriolisTorques f ! j + rightGRFTorques f ! j + leftGRFTorques f ! j)
                   [0..<n]],
            internalForce_file := internalForce_file st @
              [map (\<lambda>j. inertiaTorques f ! j - gravityTorques f ! j + coriolisTorques f ! j
                        - rightGRFTorques f ! j - leftGRFTorques f ! j)
                   [0..<n]]\<rparr>)"
proof -
  have r: "residualForce (gravityTorques f) (inertiaTorques f) (as_vector n (dynamics st))
             (coriolisTorques f) (rightGRFTorques f) (leftGRFTorques f) =
           Inr (map (\<lambda>j. gravityTorques f ! j - inertiaTorques f ! j + dynamics st j
                        - coriolisTorques f ! j + rightGRFTorques f ! j + leftGRFTorques f ! j)
                   [0..<n])"
    using assms by (simp add: residualForce_conformant [where n = n])
  have i: "internalForce (inertiaTorques f) (gravityTorques f) (coriolisTorques f)
             (rightGRFTorques f) (leftGRFTorques f) =
           Inr (map (\<lambda>j. inertiaTorques f ! j - gravityTorques f ! j + coriolisTorques f ! j
                        - rightGRFTorques f ! j - leftGRFTorques f ! j) [0..<n])"
    using assms by (simp add: internalForce_conformant [where n = n])
  show ?thesis
    using assms(1) by (simp add: write_outputs_def r i and_then_def)
qed

theorem residual_internal_signs_witness:
  "\<not> first_frame (idle_state\<lparr>dynamics := (\<lambda>j. 10)\<rparr>)
   \<and> length (gravityTorques demo_forces) = 1 \<and> length (inertiaTorques demo_forces) = 1
   \<and> length (coriolisTorques demo_forces) = 1 \<and> length (rightGRFTorques demo_forces) = 1
   \<and> length (leftGRFTorques demo_forces) = 1
   \<and> write_outputs 1 demo_forces (idle_state\<lparr>dynamics := (\<lambda>j. 10)\<rparr>) =
       Inr (idle_state\<lparr>dynamics := (\<lambda>j. 10), leftAPOJacobian_file := [[7]],
              rightAPOJacobian_file := [[6]], residualForce_file := [[17]],
              internalForce_file := [[- 7]]\<rparr>)"
  using residual_internal_signs [of "idle_state\<lparr>dynamics := (\<lambda>j. 10)\<rparr>" demo_forces 1]
  by (simp add: idle_state_def demo_forces_def)

text \<open>
  Claim C2, as amended. For contribution vectors and a measured torque vector of one length
  \<open>n\<close>, whatever their values and whatever the model, the two sums of a written frame satisfy
  internal = - residual + measured torque as an identity of exact arithmetic.
\<close>

theorem internal_is_tau_minus_residual:
  assumes "\<not> first_frame st"
    and "length (gravityTorques f) = n" and "length (inertiaTorques f) = n"
    and "length (coriolisTorques f) = n" and "length (rightGRFTorques f) = n"
    and "length (leftGRFTorques f) = n"
  shows "\<exists>st'. write_outputs n f st = Inr st' \<and>
           vec_add (map uminus (last (residualForce_file st'))) (as_vector n (dynamics st)) =
             Inr (last (internalForce_file st'))"
proof -
  have r: "residualForce (gravityTorques f) (inertiaTorques f) (as_vector n (dynamics st))
             (coriolisTorques f) (rightGRFTorques f) (leftGRFTorques f) =
           Inr (map (\<lambda>j. gravityTorques f ! j - inertiaTorques f ! j + dynamics st j
                        - coriolisTorques f ! j + rightGRFTorques f ! j + leftGRFTorques f ! j)
                   [0..<n])"
    using assms by (simp add: residualForce_conformant [where n = n])
  have i: "internalForce (inertiaTorques f) (gravityTorques f) (coriolisTorques f)
             (rightGRFTorques f) (leftGRFTorques f) =
           Inr (map (\<lambda>j. inertiaTorques f ! j - gravityTorques f ! j + coriolisTorques f ! j
                        - rightGRFTorques f ! j - leftGRFTorques f ! j) [0..<n])"
    using assms by (simp add: internalForce_conformant [where n = n])
  show ?thesis
    using assms(1)
    by (auto simp: write_outputs_def r i and_then_def vec_add_def intro!: nth_equalityI)
qed

theorem internal_is_tau_minus_residual_witness:
  "\<not> first_frame (idle_state\<lparr>dynamics := (\<lambda>j. 10)\<rparr>)
   \<and> length (gravityTorques demo_forces) = 1 \<and> length (inertiaTorques demo_forces) = 1
   \<and> length (coriolisTorques demo_forces) = 1 \<and> length (rightGRFTorques demo_forces) = 1
   \<and> length (leftGRFTorques demo_forces) = 1
   \<and> (\<exists>st'. write_outputs 1 demo_forces (idle_state\<lparr>dynamics := (\<lambda>j. 10)\<rparr>) = Inr st'
         \<and> vec_add (map uminus (last (residualForce_file st'))) [10] =
             Inr (last (internalForce_file st')))"
  using internal_is_tau_minus_residual [of "idle_state\<lparr>dynamics := (\<lambda>j. 10)\<rparr>" demo_forces 1]
  by (simp add: idle_state_def demo_forces_def as_vector_def)

lemma round_half_even_int [simp]: "round_half_even (of_int m) = m"
  by (simp add: round_half_even_def)

lemma round_double_zero [simp]: "round_double 0 = 0"
  by (simp add: round_double_def)

lemma round_double_eq:
  assumes "x \<noteq> 0" and "\<lfloor>log 2 \<bar>x\<bar>\<rfloor> = k"
  shows "round_double x =
           of_int (round_half_even (x / 2 powr of_int (k - 52))) * 2 powr of_int (k - 52)"
  using assms by (simp add: round_double_def Let_def)

lemma round_double_exact:
  assumes "2 powr of_int k \<le> \<bar>x\<bar>" and "\<bar>x\<bar> < 2 powr of_int (k + 1)"
    and "x = of_int m * 2 powr of_int (k - 52)"
  shows "round_double x = x"
proof -
  have "0 < (2::real) powr of_int k" by simp
  then have pos: "0 < \<bar>x\<bar>"
    using assms(1) by (rule less_le_trans)
  then have nz: "x \<noteq> 0" by simp
  have fl: "\<lfloor>log 2 \<bar>x\<bar>\<rfloor> = k"
    using floor_log_eq_powr_iff [of "\<bar>x\<bar>" 2 k] pos assms(1,2) by simp
  have p: "0 < (2::real) powr of_int (k - 52)" by simp
  have q: "x / 2 powr of_int (k - 52) = of_int m"
    by (subst assms(3)) (use p in simp)
  have "round_double x = of_int (round_half_even (of_int m)) * 2 powr of_int (k - 52)"
    using round_double_eq [OF nz fl] by (simp only: q)
  also have "\<dots> = x"
    by (simp only: round_half_even_int assms(3) [symmetric])
  finally show ?thesis .
qed

lemma round_double_1e16 [simp]: "round_double 10000000000000000 = 10000000000000000"
  by (rule round_double_exact [where k = 53 and m = 5000000000000000]) simp_all

lemma round_double_minus_1e16 [simp]:
  "round_double (- 10000000000000000) = - 10000000000000000"
  by (rule round_double_exact [where k = 53 and m = "- 5000000000000000"]) simp_all

lemma round_double_one [simp]: "round_double 1 = 1"
  by (rule round_double_exact [where k = 0 and m = 4503599627370496])
     (simp_all add: powr_minus)

lemma round_double_tie [simp]: "round_double 10000000000000001 = 10000000000000000"
proof -
  have fl: "\<lfloor>log 2 \<bar>10000000000000001::real\<bar>\<rfloor> = 53"
    using floor_log_eq_powr_iff [of "\<bar>10000000000000001::real\<bar>" 2 53] by simp
  have h: "round_half_even (10000000000000001 / 2) = 5000000000000000"
    by (simp add: round_half_even_def)
  have "round_double 10000000000000001 =
      of_int (round_half_even (10000000000000001 / 2 powr of_int (53 - 52)))
        * 2 powr of_int (53 - 52)"
    by (rule round_double_eq [OF _ fl]) simp
  also have "\<dots> = 10000000000000000"
    by (simp add: h)
  finally show ?thesis .
qed

text \<open>
  Claim C2, as stated, fails: the doubles that the program writes do not satisfy the identity
  exactly. With gravity and Coriolis contributions \<open>1e16\<close>, measured torque 1 and zero elsewhere,
  \<open>1e16 + 1\<close> rounds to \<open>1e16\<close>: the residual and the internal force are both 0, and
  - residual + measured torque is 1. In exact arithmetic the residual is 1.
\<close>

theorem double_sums_break_identity:
  "residualForce_double [10 ^ 16] [0] [1] [10 ^ 16] [0] [0] = Inr [0]
   \<and> internalForce_double [0] [10 ^ 16] [10 ^ 16] [0] [0] = Inr [0]
   \<and> vec_add_double (map uminus [0]) [1] = Inr [1]
   \<and> residualForce [10 ^ 16] [0] [1] [10 ^ 16] [0] [0] = Inr [1]"
  by (simp add: residualForce_double_def internalForce_double_def vec_add_double_def
      vec_sub_double_def residualForce_def vec_add_def vec_sub_def)

subsection \<open>Reading a frame\<close>

lemma advance_Num:
  assumes "stream_ok s" "toks s = Num x # ts"
  shows "advance s = s\<lparr>toks := ts, eofbit := (ts = [] \<and> \<not> trailing_ws s)\<rparr>"
    and "extracted s v = x"
  using assms by (auto simp: stream_ok_def advance_def extracted_def)

lemma advance_Num_ok:
  assumes "stream_ok s" "toks s = Num x # ts"
  shows "stream_ok (advance s)" "toks (advance s) = ts"
    "trailing_ws (advance s) = trailing_ws s"
  using assms by (auto simp: stream_ok_def advance_def)

lemma advance_pow_toks:
  assumes "stream_ok s" "toks s = map Num vs @ rest" "k \<le> length vs"
  shows "stream_ok ((advance ^^ k) s) \<and> toks ((advance ^^ k) s) = map Num (drop k vs) @ rest
         \<and> trailing_ws ((advance ^^ k) s) = trailing_ws s"
  using assms(3)
proof (induction k)
  case 0
  then show ?case using assms by simp
next
  case (Suc k)
  then have ih: "stream_ok ((advance ^^ k) s)"
    "toks ((advance ^^ k) s) = map Num (drop k vs) @ rest"
    "trailing_ws ((advance ^^ k) s) = trailing_ws s" by simp_all
  from Suc.prems have "drop k vs = vs ! k # drop (Suc k) vs"
    by (simp add: Cons_nth_drop_Suc)
  with ih(2) have t: "toks ((advance ^^ k) s) = Num (vs ! k) # (map Num (drop (Suc k) vs) @ rest)"
    by simp
  show ?case
    using advance_Num_ok [OF ih(1) t] ih(3) by simp
qed

lemma advance_pow_extracted:
  assumes "stream_ok s" "toks s = map Num vs @ rest" "k < length vs"
  shows "extracted ((advance ^^ k) s) v = vs ! k"
proof -
  have ih: "stream_ok ((advance ^^ k) s)"
    "toks ((advance ^^ k) s) = map Num (drop k vs) @ rest"
    using advance_pow_toks [OF assms(1,2), of k] assms(3) by simp_all
  from assms(3) have "drop k vs = vs ! k # drop (Suc k) vs"
    by (simp add: Cons_nth_drop_Suc)
  with ih(2) have t: "toks ((advance ^^ k) s) = Num (vs ! k) # (map Num (drop (Suc k) vs) @ rest)"
    by simp
  show ?thesis by (rule advance_Num(2) [OF ih(1) t])
qed

text \<open>What the reading loop does to each field.\<close>

lemma read_dof_fields:
  "grfs_file (read_dof n st j) = grfs_file st"
  "grfs (read_dof n st j) = grfs st"
  "time (read_dof n st j) = time st"
  "first_frame (read_dof n st j) = first_frame st"
  "leftAPOJacobian_file (read_dof n st j) = leftAPOJacobian_file st"
  "rightAPOJacobian_file (read_dof n st j) = rightAPOJacobian_file st"
  "residualForce_file (read_dof n st j) = residualForce_file st"
  "internalForce_file (read_dof n st j) = internalForce_file st"
  "states_file (read_dof n st j) = advance (states_file st)"
  "states (read_dof n st j) = (states st)(j := extracted (states_file st) (states st j))"
  "accelerations_file (read_dof n st j) =
     (if j < n then advance (accelerations_file st) else accelerations_file st)"
  "accelerations (read_dof n st j) =
     (if j < n then (accelerations st)
        (j := convert_at j (extracted (accelerations_file st) (accelerations st j)))
      else accelerations st)"
  "dynamics_file (read_dof n st j) =
     (if j < n then advance (dynamics_file st) else dynamics_file st)"
  "dynamics (read_dof n st j) =
     (if j < n then (dynamics st)(j := extracted (dynamics_file st) (dynamics st j))
      else dynamics st)"
  by (simp_all add: read_dof_def Let_def convert_at_def)

lemma read_grf_fields:
  "grfs_file (read_grf st j) = advance (grfs_file st)"
  "grfs (read_grf st j) = (grfs st)(j := extracted (grfs_file st) (grfs st j))"
  "time (read_grf st j) = time st"
  "first_frame (read_grf st j) = first_frame st"
  "leftAPOJacobian_file (read_grf st j) = leftAPOJacobian_file st"
  "rightAPOJacobian_file (read_grf st j) = rightAPOJacobian_file st"
  "residualForce_file (read_grf st j) = residualForce_file st"
  "internalForce_file (read_grf st j) = internalForce_file st"
  "states_file (read_grf st j) = states_file st"
  "states (read_grf st j) = states st"
  "accelerations_file (read_grf st j) = accelerations_file st"
  "accelerations (read_grf st j) = accelerations st"
  "dynamics_file (read_grf st j) = dynamics_file st"
  "dynamics (read_grf st j) = dynamics st"
  by (simp_all add: read_grf_def)

lemma upt_snoc: "[0..<Suc k] = [0..<k] @ [k]" by simp

lemma dofs_files:
  "states_file (foldl (read_dof n) st [0..<k]) = (advance ^^ k) (states_file st)"
  "accelerations_file (foldl (read_dof n) st [0..<k]) = (advance ^^ min k n) (accelerations_file st)"
  "dynamics_file (foldl (read_dof n) st [0..<k]) = (advance ^^ min k n) (dynamics_file st)"
  "grfs_file (foldl (read_dof n) st [0..<k]) = grfs_file st"
  "grfs (foldl (read_dof n) st [0..<k]) = grfs st"
  "first_frame (foldl (read_dof n) st [0..<k]) = first_frame st"
  "leftAPOJacobian_file (foldl (read_dof n) st [0..<k]) = leftAPOJacobian_file st"
  "rightAPOJacobian_file (foldl (read_dof n) st [0..<k]) = rightAPOJacobian_file st"
  "residualForce_file (foldl (read_dof n) st [0..<k]) = residualForce_file st"
  "internalForce_file (foldl (read_dof n) st [0..<k]) = internalForce_file st"
  by (induction k; simp add: read_dof_fields min_def)+

lemma grf_files:
  "grfs_file (foldl read_grf st [0..<k]) = (advance ^^ k) (grfs_file st)"
  "states_file (foldl read_grf st [0..<k]) = states_file st"
  "accelerations_file (foldl read_grf st [0..<k]) = accelerations_file st"
  "dynamics_file (foldl read_grf st [0..<k]) = dynamics_file st"
  "states (foldl read_grf st [0..<k]) = states st"
  "accelerations (foldl read_grf st [0..<k]) = accelerations st"
  "dynamics (foldl read_grf st [0..<k]) = dynamics st"
  "first_frame (foldl read_grf st [0..<k]) = first_frame st"
  "leftAPOJacobian_file (foldl read_grf st [0..<k]) = leftAPOJacobian_file st"
  "rightAPOJacobian_file (foldl read_grf st [0..<k]) = rightAPOJacobian_file st"
  "residualForce_file (foldl read_grf st [0..<k]) = residualForce_file st"
  "internalForce_file (foldl read_grf st [0..<k]) = internalForce_file st"
  by (induction k; simp add: read_grf_fields)+

lemma dofs_states:
  assumes "stream_ok (states_file st)" "toks (states_file st) = map Num vs @ rest"
    "k \<le> length vs"
  shows "states (foldl (read_dof n) st [0..<k]) = (\<lambda>j. if j < k then vs ! j else states st j)"
  using assms(3)
proof (induction k)
  case 0
  then show ?case by simp
next
  case (Suc k)
  then have ih: "states (foldl (read_dof n) st [0..<k]) =
      (\<lambda>j. if j < k then vs ! j else states st j)" by simp
  have ex: "extracted ((advance ^^ k) (states_file st)) v = vs ! k" for v
    using advance_pow_extracted [OF assms(1,2)] Suc.prems by simp
  show ?case
    by (auto simp: read_dof_fields dofs_files ih ex fun_eq_iff)
qed

lemma dofs_accelerations:
  assumes "stream_ok (accelerations_file st)"
    "toks (accelerations_file st) = map Num vs @ rest" "min k n \<le> length vs"
  shows "accelerations (foldl (read_dof n) st [0..<k]) =
           (\<lambda>j. if j < min k n then convert_at j (vs ! j) else accelerations st j)"
  using assms(3)
proof (induction k)
  case 0
  then show ?case by simp
next
  case (Suc k)
  then have ih: "accelerations (foldl (read_dof n) st [0..<k]) =
      (\<lambda>j. if j < min k n then convert_at j (vs ! j) else accelerations st j)" by simp
  show ?case
  proof (cases "k < n")
    case True
    then have ex: "extracted ((advance ^^ k) (accelerations_file st)) v = vs ! k" for v
      using advance_pow_extracted [OF assms(1,2), of k] Suc.prems by simp
    show ?thesis
      using True by (auto simp: read_dof_fields dofs_files ih ex fun_eq_iff)
  next
    case False
    then show ?thesis
      by (auto simp: read_dof_fields dofs_files ih fun_eq_iff)
  qed
qed

lemma dofs_dynamics:
  assumes "stream_ok (dynamics_file st)"
    "toks (dynamics_file st) = map Num vs @ rest" "min k n \<le> length vs"
  shows "dynamics (foldl (read_dof n) st [0..<k]) =
           (\<lambda>j. if j < min k n then vs ! j else dynamics st j)"
  using assms(3)
proof (induction k)
  case 0
  then show ?case by simp
next
  case (Suc k)
  then have ih: "dynamics (foldl (read_dof n) st [0..<k]) =
      (\<lambda>j. if j < min k n then vs ! j else dynamics st j)" by simp
  show ?case
  proof (cases "k < n")
    case True
    then have ex: "extracted ((advance ^^ k) (dynamics_file st)) v = vs ! k" for v
      using advance_pow_extracted [OF assms(1,2), of k] Suc.prems by simp
    show ?thesis
      using True by (auto simp: read_dof_fields dofs_files ih ex fun_eq_iff)
  next
    case False
    then show ?thesis
      by (auto simp: read_dof_fields dofs_files ih fun_eq_iff)
  qed
qed

lemma grf_values:
  assumes "stream_ok (grfs_file st)" "toks (grfs_file st) = map Num vs @ rest"
    "k \<le> length vs"
  shows "grfs (foldl read_grf st [0..<k]) = (\<lambda>j. if j < k then vs ! j else grfs st j)"
  using assms(3)
proof (induction k)
  case 0
  then show ?case by simp
next
  case (Suc k)
  then have ih: "grfs (foldl read_grf st [0..<k]) =
      (\<lambda>j. if j < k then vs ! j else grfs st j)" by simp
  have ex: "extracted ((advance ^^ k) (grfs_file st)) v = vs ! k" for v
    using advance_pow_extracted [OF assms(1,2)] Suc.prems by simp
  show ?case
    by (auto simp: read_grf_fields grf_files ih ex fun_eq_iff)
qed

lemma to_radians_pi: "to_radians a = a * pi / 180"
  by (simp add: to_radians_def arctan_one)

lemma fresh_stream_ok: "\<not> failbit s \<Longrightarrow> \<not> eofbit s \<Longrightarrow> stream_ok s"
  by (simp add: stream_ok_def)

lemma take_split: "take n xs = ys \<Longrightarrow> xs = ys @ drop n xs"
  by (metis append_take_drop_id)

text \<open>
  Claim C3. When the acceleration, torque and state streams hold the numbers of the frame,
  the acceleration handed on is the input times pi/180 at every index below 3 or above 5 and
  the input itself at the indices 3, 4 and 5; the torques and the states are the inputs
  unchanged.
\<close>

theorem acceleration_units:
  assumes "\<not> failbit (accelerations_file st)" and "\<not> eofbit (accelerations_file st)"
    and "take n (toks (accelerations_file st)) = map Num a" and "length a = n"
    and "\<not> failbit (dynamics_file st)" and "\<not> eofbit (dynamics_file st)"
    and "take n (toks (dynamics_file st)) = map Num d" and "length d = n"
    and "\<not> failbit (states_file st)" and "\<not> eofbit (states_file st)"
    and "take (2 * n) (toks (states_file st)) = map Num s" and "length s = 2 * n"
  shows "as_vector n (accelerations (read_payload n st)) =
           map (\<lambda>j. if j < 3 \<or> j > 5 then a ! j * pi / 180 else a ! j) [0..<n]
         \<and> as_vector n (dynamics (read_payload n st)) = d
         \<and> as_vector (2 * n) (states (read_payload n st)) = s"
proof -
  let ?st = "foldl read_grf st [0..<expectedGRFSize]"
  have ta: "toks (accelerations_file ?st) = map Num a @ drop n (toks (accelerations_file st))"
    unfolding grf_files by (rule take_split) (rule assms)
  have td: "toks (dynamics_file ?st) = map Num d @ drop n (toks (dynamics_file st))"
    unfolding grf_files by (rule take_split) (rule assms)
  have ts: "toks (states_file ?st) = map Num s @ drop (2 * n) (toks (states_file st))"
    unfolding grf_files by (rule take_split) (rule assms)
  have oa: "stream_ok (accelerations_file ?st)"
    unfolding grf_files by (rule fresh_stream_ok) (rule assms)+
  have od: "stream_ok (dynamics_file ?st)"
    unfolding grf_files by (rule fresh_stream_ok) (rule assms)+
  have os: "stream_ok (states_file ?st)"
    unfolding grf_files by (rule fresh_stream_ok) (rule assms)+
  have a: "accelerations (read_payload n st) =
      (\<lambda>j. if j < min (2 * n) n then convert_at j (a ! j) else accelerations ?st j)"
    unfolding read_payload_def
    by (rule dofs_accelerations [OF oa ta]) (simp add: assms(4))
  have d: "dynamics (read_payload n st) =
      (\<lambda>j. if j < min (2 * n) n then d ! j else dynamics ?st j)"
    unfolding read_payload_def
    by (rule dofs_dynamics [OF od td]) (simp add: assms(8))
  have s: "states (read_payload n st) =
      (\<lambda>j. if j < 2 * n then s ! j else states ?st j)"
    unfolding read_payload_def
    by (rule dofs_states [OF os ts]) (simp add: assms(12))
  have 1: "as_vector n (accelerations (read_payload n st)) =
           map (\<lambda>j. if j < 3 \<or> j > 5 then a ! j * pi / 180 else a ! j) [0..<n]"
    by (rule nth_equalityI) (auto simp: a convert_at_def to_radians_pi)
  have 2: "as_vector n (dynamics (read_payload n st)) = d"
    by (rule nth_equalityI) (auto simp: d assms(8))
  have 3: "as_vector (2 * n) (states (read_payload n st)) = s"
    by (rule nth_equalityI) (auto simp: s assms(12))
  from 1 2 3 show ?thesis by simp
qed

theorem acceleration_units_witness:
  "\<not> failbit (accelerations_file seven_dof_state)
   \<and> \<not> eofbit (accelerations_file seven_dof_state)
   \<and> take 7 (toks (accelerations_file seven_dof_state)) =
        map Num [180, 180, 180, 180, 180, 180, 180]
   \<and> \<not> failbit (dynamics_file seven_dof_state) \<and> \<not> eofbit (dynamics_file seven_dof_state)
   \<and> take 7 (toks (dynamics_file seven_dof_state)) = map Num [1, 2, 3, 4, 5, 6, 7]
   \<and> \<not> failbit (states_file seven_dof_state) \<and> \<not> eofbit (states_file seven_dof_state)
   \<and> take (2 * 7) (toks (states_file seven_dof_state)) =
        map Num [1, 2, 3, 4, 5, 6, 7, 8, 9, 10, 11, 12, 13, 14]
   \<and> as_vector 7 (accelerations (read_payload 7 seven_dof_state)) =
        [pi, pi, pi, 180, 180, 180, pi]
   \<and> as_vector 7 (dynamics (read_payload 7 seven_dof_state)) = [1, 2, 3, 4, 5, 6, 7]
   \<and> as_vector (2 * 7) (states (read_payload 7 seven_dof_state)) =
        [1, 2, 3, 4, 5, 6, 7, 8, 9, 10, 11, 12, 13, 14]"
  using acceleration_units [of seven_dof_state 7 "[180, 180, 180, 180, 180, 180, 180]"
      "[1, 2, 3, 4, 5, 6, 7]" "[1, 2, 3, 4, 5, 6, 7, 8, 9, 10, 11, 12, 13, 14]"]
  by (simp add: seven_dof_state_def idle_state_def opened_def upt_rec [of _ "numeral _"]
      upt_rec [of _ "Suc _"])

subsection \<open>The centrifugal buffer and the body loop\<close>

lemma fill_slots:
  "foldl (\<lambda>acc j. and_then acc (\<lambda>buf. set_slot buf j (cf j))) (Inr b) [Suc 0..<m] =
     (if m \<le> centrifugal_capacity
      then Inr (\<lambda>j. if Suc 0 \<le> j \<and> j < m then cf j else b j)
      else Inl IndexOutOfRange)"
proof (induction m)
  case 0
  then show ?case by simp
next
  case (Suc m)
  show ?case
  proof (cases "1 \<le> m")
    case True
    then have "[Suc 0..<Suc m] = [Suc 0..<m] @ [m]" by simp
    then show ?thesis
      using Suc True by (auto simp: set_slot_def fun_eq_iff)
  next
    case False
    then show ?thesis by (auto simp: centrifugal_capacity_def fun_eq_iff)
  qed
qed

lemma totalCentrifugalForces_eq:
  "totalCentrifugalForces e si u =
     (if numBodies e \<le> centrifugal_capacity
      then Inr (\<lambda>j. if 1 \<le> j \<and> j < numBodies e then getTotalCentrifugalForces e si j
                    else if j = 0 then SpatialVec_zero else u j)
      else Inl IndexOutOfRange)"
proof -
  have "set_slot u 0 SpatialVec_zero = Inr (u(0 := SpatialVec_zero))"
    by (simp add: set_slot_def centrifugal_capacity_def)
  then show ?thesis
    by (auto simp: totalCentrifugalForces_def fill_slots fun_eq_iff)
qed

text \<open>
  Claim C10. The buffer of centrifugal forces has 18 slots whatever the number of bodies: the
  writes stay inside it exactly when the model has at most 18 bodies, and the vector handed
  to the Jacobian-transpose map has 18 entries.
\<close>

theorem centrifugal_buffer_capacity:
  "(case totalCentrifugalForces_reference e si u of
      Inl err \<Rightarrow> err = IndexOutOfRange \<and> 18 < numBodies e
    | Inr F \<Rightarrow> length F = 18 \<and> numBodies e \<le> 18)"
  by (simp add: totalCentrifugalForces_reference_def totalCentrifugalForces_eq
      centrifugal_capacity_def)

theorem centrifugal_buffer_capacity_witness:
  "(\<exists>F. totalCentrifugalForces_reference demo_engine [3, 0] (\<lambda>j. ((1, 1, 1), (1, 1, 1))) = Inr F
        \<and> length F = 18)
   \<and> totalCentrifugalForces_reference (demo_engine\<lparr>numBodies := 19\<rparr>) [3, 0]
        (\<lambda>j. ((1, 1, 1), (1, 1, 1))) = Inl IndexOutOfRange"
  using centrifugal_buffer_capacity [of demo_engine "[3, 0]" "\<lambda>j. ((1, 1, 1), (1, 1, 1))"]
    centrifugal_buffer_capacity [of "demo_engine\<lparr>numBodies := 19\<rparr>" "[3, 0]"
      "\<lambda>j. ((1, 1, 1), (1, 1, 1))"]
  by (auto simp: demo_engine_def split: sum.splits)

lemma body_loop_keeps:
  "inertiaTorques (foldl (body_step e si g) f js) = inertiaTorques f"
  "gravityTorques (foldl (body_step e si g) f js) = gravityTorques f"
  "coriolisTorques (foldl (body_step e si g) f js) = coriolisTorques f"
  by (induction js arbitrary: f; simp add: body_step_def Let_def)+

text \<open>
  Claim C6. The Coriolis contribution of a frame is the system Jacobian transpose applied to
  the per-body centrifugal forces, where the entry of body 0 (ground) is zero and the entry
  of every other body is the engine's centrifugal force of that body.
\<close>

theorem coriolis_from_body_forces:
  assumes "numBodies e \<le> 18"
  shows "\<exists>F f. totalCentrifugalForces_reference e si u = Inr F
           \<and> F ! 0 = SpatialVec_zero
           \<and> (\<forall>j. 1 \<le> j \<and> j < numBodies e \<longrightarrow> F ! j = getTotalCentrifugalForces e si j)
           \<and> compute_frame e u si acc g = Inr f
           \<and> coriolisTorques f = multiplyBySystemJacobianTranspose e si F"
  using assms
  by (simp add: compute_frame_def totalCentrifugalForces_reference_def
      totalCentrifugalForces_eq centrifugal_capacity_def body_loop_keeps)

theorem coriolis_from_body_forces_witness:
  "numBodies demo_engine \<le> 18
   \<and> (\<exists>F f. totalCentrifugalForces_reference demo_engine [3, 2] (\<lambda>j. ((1, 1, 1), (1, 1, 1))) = Inr F
         \<and> F ! 0 = SpatialVec_zero
         \<and> (\<forall>j. 1 \<le> j \<and> j < 5 \<longrightarrow> F ! j = (Vec3_zero, (0, 4, 0)))
         \<and> compute_frame demo_engine (\<lambda>j. ((1, 1, 1), (1, 1, 1))) [3, 2] [0] (\<lambda>j. 0) = Inr f
         \<and> coriolisTorques f = [16])"
proof -
  have n: "numBodies demo_engine \<le> 18" by (simp add: demo_engine_def)
  from coriolis_from_body_forces [OF n, of "[3, 2]" "\<lambda>j. ((1, 1, 1), (1, 1, 1))" "[0]" "\<lambda>j. 0"]
  obtain F f where F: "totalCentrifugalForces_reference demo_engine [3, 2]
        (\<lambda>j. ((1, 1, 1), (1, 1, 1))) = Inr F"
    "F ! 0 = SpatialVec_zero"
    "\<forall>j. 1 \<le> j \<and> j < numBodies demo_engine
        \<longrightarrow> F ! j = getTotalCentrifugalForces demo_engine [3, 2] j"
    "compute_frame demo_engine (\<lambda>j. ((1, 1, 1), (1, 1, 1))) [3, 2] [0] (\<lambda>j. 0) = Inr f"
    "coriolisTorques f = multiplyBySystemJacobianTranspose demo_engine [3, 2] F"
    by blast
  from F(3) have b: "\<forall>j. 1 \<le> j \<and> j < 5 \<longrightarrow> F ! j = (Vec3_zero, (0, 4, 0))"
    by (simp add: demo_engine_def)
  then have "F ! 1 = (Vec3_zero, (0, 4, 0))" "F ! 2 = (Vec3_zero, (0, 4, 0))"
    "F ! 3 = (Vec3_zero, (0, 4, 0))" "F ! 4 = (Vec3_zero, (0, 4, 0))"
    by simp_all
  with F(2,5) have "coriolisTorques f = [16]"
    by (simp add: demo_engine_def force_y_def SpatialVec_zero_def Vec3_zero_def)
  with n F(1,2,4) b show ?thesis by blast
qed

lemma body_loop_absent:
  "\<forall>j\<in>set js. bodyName e j \<noteq> ''calcn_r'' \<Longrightarrow>
     rightGRFTorques (foldl (body_step e si g) f js) = rightGRFTorques f"
  "\<forall>j\<in>set js. bodyName e j \<noteq> ''calcn_l'' \<Longrightarrow>
     leftGRFTorques (foldl (body_step e si g) f js) = leftGRFTorques f"
  "\<forall>j\<in>set js. bodyName e j \<noteq> ''femur_r'' \<Longrightarrow>
     rightAPOJacobian (foldl (body_step e si g) f js) = rightAPOJacobian f"
  "\<forall>j\<in>set js. bodyName e j \<noteq> ''femur_l'' \<Longrightarrow>
     leftAPOJacobian (foldl (body_step e si g) f js) = leftAPOJacobian f"
  by (induction js arbitrary: f; simp add: body_step_def Let_def)+

lemma body_loop_zero_right:
  assumes "groundRightMoment g = Vec3_zero" "groundRightForce g = Vec3_zero"
    and mf: "\<And>b p. multiplyByFrameJacobianTranspose e si b p (Vec3_zero, Vec3_zero) = z"
  shows "rightGRFTorques (foldl (body_step e si g) f js) =
           (if \<exists>j\<in>set js. bodyName e j = ''calcn_r'' then z else rightGRFTorques f)"
  using assms(1,2)
  by (induction js arbitrary: f) (simp_all add: body_step_def Let_def mf)

lemma body_loop_zero_left:
  assumes "groundLeftMoment g = Vec3_zero" "groundLeftForce g = Vec3_zero"
    and mf: "\<And>b p. multiplyByFrameJacobianTranspose e si b p (Vec3_zero, Vec3_zero) = z"
  shows "leftGRFTorques (foldl (body_step e si g) f js) =
           (if \<exists>j\<in>set js. bodyName e j = ''calcn_l'' then z else leftGRFTorques f)"
  using assms(1,2)
  by (induction js arbitrary: f) (simp_all add: body_step_def Let_def mf)

lemma zero_channels:
  assumes "\<forall>j<18. g j = 0"
  shows "groundRightMoment g = Vec3_zero" "groundRightForce g = Vec3_zero"
    "groundLeftMoment g = Vec3_zero" "groundLeftForce g = Vec3_zero"
  using assms
  by (simp_all add: groundRightMoment_def groundRightForce_def groundLeftMoment_def
      groundLeftForce_def vec3_at_def Vec3_zero_def)

text \<open>
  Claim C4. In a frame with zero accelerations, zero velocities and 18 zero contact channels
  the inertial, Coriolis, right-contact and left-contact contributions are the zero vector of
  length \<open>n\<close>. Nothing is said of the gravity contribution.
\<close>

theorem zero_motion_zero_contributions:
  assumes "zero_preserving e" and "numBodies e \<le> 18"
    and "\<exists>j<numBodies e. bodyName e j = ''calcn_r''"
    and "\<exists>j<numBodies e. bodyName e j = ''calcn_l''"
    and "acc = replicate (numMobilities e) 0"
    and "length si = 2 * numMobilities e"
    and "\<forall>j. numMobilities e \<le> j \<and> j < 2 * numMobilities e \<longrightarrow> si ! j = 0"
    and "\<forall>j<18. g j = 0"
  shows "\<exists>f. compute_frame e u si acc g = Inr f
           \<and> inertiaTorques f = replicate (numMobilities e) 0
           \<and> coriolisTorques f = replicate (numMobilities e) 0
           \<and> rightGRFTorques f = replicate (numMobilities e) 0
           \<and> leftGRFTorques f = replicate (numMobilities e) 0"
proof -
  let ?z = "replicate (numMobilities e) (0::real)"
  let ?F = "as_vector centrifugal_capacity
      (\<lambda>j. if Suc 0 \<le> j \<and> j < numBodies e then getTotalCentrifugalForces e si j
            else if j = 0 then SpatialVec_zero else u j)"
  let ?f0 = "\<lparr>inertiaTorques = multiplyByM e si acc,
      gravityTorques = multiplyBySystemJacobianTranspose e si (gravityBodyForces e si),
      coriolisTorques = multiplyBySystemJacobianTranspose e si ?F,
      rightGRFTorques = [], leftGRFTorques = [],
      rightAPOJacobian = [], leftAPOJacobian = []\<rparr>"
  have cf: "getTotalCentrifugalForces e si b = SpatialVec_zero" for b
    using assms(1,6,7) unfolding zero_preserving_def by blast
  have fj: "multiplyByFrameJacobianTranspose e si b p (Vec3_zero, Vec3_zero) = ?z" for b p
    using assms(1) unfolding zero_preserving_def SpatialVec_zero_def by blast
  have "\<forall>b<numBodies e. ?F ! b = SpatialVec_zero"
    using assms(2) by (auto simp: cf centrifugal_capacity_def)
  then have cor: "multiplyBySystemJacobianTranspose e si ?F = ?z"
    using assms(1) unfolding zero_preserving_def by blast
  have ine: "multiplyByM e si acc = ?z"
    using assms(1,5) unfolding zero_preserving_def by simp
  have c: "compute_frame e u si acc g = Inr (foldl (body_step e si g) ?f0 [0..<numBodies e])"
    using assms(2)
    by (simp add: compute_frame_def totalCentrifugalForces_reference_def
        totalCentrifugalForces_eq centrifugal_capacity_def)
  have r: "rightGRFTorques (foldl (body_step e si g) ?f0 [0..<numBodies e]) = ?z"
    using assms(3)
    by (auto simp: body_loop_zero_right [OF zero_channels(1,2) [OF assms(8)] fj])
  have l: "leftGRFTorques (foldl (body_step e si g) ?f0 [0..<numBodies e]) = ?z"
    using assms(4)
    by (auto simp: body_loop_zero_left [OF zero_channels(3,4) [OF assms(8)] fj])
  have i: "inertiaTorques (foldl (body_step e si g) ?f0 [0..<numBodies e]) = ?z"
    by (simp add: body_loop_keeps ine)
  have k: "coriolisTorques (foldl (body_step e si g) ?f0 [0..<numBodies e]) = ?z"
    by (simp add: body_loop_keeps cor)
  from c i k r l show ?thesis by blast
qed

lemma demo_engine_zero_preserving: "zero_preserving demo_engine"
  unfolding zero_preserving_def
proof (intro conjI allI impI)
  fix s F
  assume "\<forall>b<numBodies demo_engine. F ! b = SpatialVec_zero"
  then have "F ! 0 = SpatialVec_zero" "F ! 1 = SpatialVec_zero" "F ! 2 = SpatialVec_zero"
    "F ! 3 = SpatialVec_zero" "F ! 4 = SpatialVec_zero"
    by (simp_all add: demo_engine_def)
  then show "multiplyBySystemJacobianTranspose demo_engine s F =
      replicate (numMobilities demo_engine) 0"
    by (simp add: demo_engine_def force_y_def SpatialVec_zero_def Vec3_zero_def)
qed (auto simp: demo_engine_def force_y_def SpatialVec_zero_def Vec3_zero_def)

theorem zero_motion_zero_contributions_witness:
  "zero_preserving demo_engine \<and> numBodies demo_engine \<le> 18
   \<and> (\<exists>j<numBodies demo_engine. bodyName demo_engine j = ''calcn_r'')
   \<and> (\<exists>j<numBodies demo_engine. bodyName demo_engine j = ''calcn_l'')
   \<and> (\<exists>f. compute_frame demo_engine (\<lambda>j. ((1, 1, 1), (1, 1, 1))) [3, 0] [0] (\<lambda>j. 0) = Inr f
         \<and> inertiaTorques f = [0] \<and> coriolisTorques f = [0]
         \<and> rightGRFTorques f = [0] \<and> leftGRFTorques f = [0])"
proof -
  have names: "\<exists>j<numBodies demo_engine. bodyName demo_engine j = ''calcn_r''"
    "\<exists>j<numBodies demo_engine. bodyName demo_engine j = ''calcn_l''"
    by (auto simp: demo_engine_def intro: exI [of _ 1] exI [of _ 2])
  have s: "\<forall>j. numMobilities demo_engine \<le> j \<and> j < 2 * numMobilities demo_engine
               \<longrightarrow> [3, 0::real] ! j = 0"
    by (auto simp: demo_engine_def less_Suc_eq numeral_2_eq_2)
  have n: "numBodies demo_engine \<le> 18" "[0] = replicate (numMobilities demo_engine) (0::real)"
    "length [3, 0::real] = 2 * numMobilities demo_engine"
    by (simp_all add: demo_engine_def)
  have g: "\<forall>j<18. (\<lambda>j. 0::real) j = 0" by simp
  show ?thesis
    using zero_motion_zero_contributions [OF demo_engine_zero_preserving n(1) names n(2,3) s g,
        of "\<lambda>j. ((1, 1, 1), (1, 1, 1))"]
      demo_engine_zero_preserving names n(1)
    by (simp add: demo_engine_def)
qed

subsection \<open>The frame loop on aligned frames\<close>

lemma read_time_tags_fields:
  "grfs_file (read_time_tags st) = advance (grfs_file st)"
  "states_file (read_time_tags st) = advance (states_file st)"
  "accelerations_file (read_time_tags st) = advance (accelerations_file st)"
  "dynamics_file (read_time_tags st) = advance (dynamics_file st)"
  "states (read_time_tags st) = states st"
  "accelerations (read_time_tags st) = accelerations st"
  "dynamics (read_time_tags st) = dynamics st"
  "grfs (read_time_tags st) = grfs st"
  "first_frame (read_time_tags st) = first_frame st"
  "leftAPOJacobian_file (read_time_tags st) = leftAPOJacobian_file st"
  "rightAPOJacobian_file (read_time_tags st) = rightAPOJacobian_file st"
  "residualForce_file (read_time_tags st) = residualForce_file st"
  "internalForce_file (read_time_tags st) = internalForce_file st"
  by (simp_all add: read_time_tags_def Let_def)

lemma read_payload_fields:
  "grfs_file (read_payload n st) = (advance ^^ expectedGRFSize) (grfs_file st)"
  "states_file (read_payload n st) = (advance ^^ (2 * n)) (states_file st)"
  "accelerations_file (read_payload n st) = (advance ^^ n) (accelerations_file st)"
  "dynamics_file (read_payload n st) = (advance ^^ n) (dynamics_file st)"
  "first_frame (read_payload n st) = first_frame st"
  "leftAPOJacobian_file (read_payload n st) = leftAPOJacobian_file st"
  "rightAPOJacobian_file (read_payload n st) = rightAPOJacobian_file st"
  "residualForce_file (read_payload n st) = residualForce_file st"
  "internalForce_file (read_payload n st) = internalForce_file st"
  by (simp_all add: read_payload_def dofs_files grf_files)

text \<open>Reading one row: a time tag and \<open>k\<close> numbers.\<close>

lemma row_stream:
  assumes "stream_ok s" "toks s = Num t # map Num row @ rest" "length row = k"
  shows "stream_ok (advance s)" "toks (advance s) = map Num row @ rest"
    "stream_ok ((advance ^^ k) (advance s))" "toks ((advance ^^ k) (advance s)) = rest"
    "0 < k \<Longrightarrow> \<not> eofbit (advance s)"
proof -
  have t: "toks s = Num t # (map Num row @ rest)" using assms(2) by simp
  show 1: "stream_ok (advance s)" and 2: "toks (advance s) = map Num row @ rest"
    using advance_Num_ok [OF assms(1) t] by simp_all
  show "stream_ok ((advance ^^ k) (advance s))" "toks ((advance ^^ k) (advance s)) = rest"
    using advance_pow_toks [OF 1 2, of k] assms(3) by simp_all
  show "0 < k \<Longrightarrow> \<not> eofbit (advance s)"
    using advance_Num(1) [OF assms(1) t] assms(3) by auto
qed

lemma row_tokens_Cons:
  "row_tokens p (fr # frs) = Num (time_tag fr) # map Num (p fr) @ row_tokens p frs"
  by (simp add: row_tokens_def)

lemma row_tokens_Nil: "row_tokens p [] = []"
  by (simp add: row_tokens_def)

lemma read_frame:
  assumes "holds_frames st (fr # rest)" and "well_formed n fr"
  defines "st' \<equiv> read_payload n (read_time_tags st)"
  shows "holds_frames st' rest"
    and "as_vector (2 * n) (states st') = state_row fr"
    and "as_vector n (accelerations st') = realized_accelerations fr"
    and "as_vector n (dynamics st') = torque_row fr"
    and "\<forall>j<expectedGRFSize. grfs st' j = grf_row fr ! j"
    and "0 < n \<Longrightarrow> \<not> eofbit (states_file (read_time_tags st))"
proof -
  let ?st1 = "read_time_tags st"
  let ?stg = "foldl read_grf ?st1 [0..<expectedGRFSize]"
  have len: "length (grf_row fr) = expectedGRFSize" "length (state_row fr) = 2 * n"
    "length (acc_row fr) = n" "length (torque_row fr) = n"
    using assms(2) by (simp_all add: well_formed_def)
  have g: "stream_ok (grfs_file st)"
    "toks (grfs_file st) = Num (time_tag fr) # map Num (grf_row fr) @ row_tokens grf_row rest"
    and s: "stream_ok (states_file st)"
    "toks (states_file st) = Num (time_tag fr) # map Num (state_row fr) @ row_tokens state_row rest"
    and a: "stream_ok (accelerations_file st)"
    "toks (accelerations_file st) = Num (time_tag fr) # map Num (acc_row fr) @ row_tokens acc_row rest"
    and d: "stream_ok (dynamics_file st)"
    "toks (dynamics_file st) = Num (time_tag fr) # map Num (torque_row fr) @ row_tokens torque_row rest"
    using assms(1) by (simp_all add: holds_frames_def row_tokens_Cons)
  note G = row_stream [OF g len(1)]
  note S = row_stream [OF s len(2)]
  note A = row_stream [OF a len(3)]
  note D = row_stream [OF d len(4)]
  show "holds_frames st' rest"
    unfolding holds_frames_def st'_def read_payload_fields read_time_tags_fields
    using G(3,4) S(3,4) A(3,4) D(3,4) by simp
  show "0 < n \<Longrightarrow> \<not> eofbit (states_file (read_time_tags st))"
    using S(5) by (simp add: read_time_tags_fields)
  have "states st' = (\<lambda>j. if j < 2 * n then state_row fr ! j else states ?stg j)"
    unfolding st'_def read_payload_def
    by (rule dofs_states [where rest = "row_tokens state_row rest"])
       (simp_all add: grf_files read_time_tags_fields S(1,2) len)
  then show "as_vector (2 * n) (states st') = state_row fr"
    by (intro nth_equalityI) (simp_all add: len)
  have "accelerations st' =
      (\<lambda>j. if j < min (2 * n) n then convert_at j (acc_row fr ! j) else accelerations ?stg j)"
    unfolding st'_def read_payload_def
    by (rule dofs_accelerations [where rest = "row_tokens acc_row rest"])
       (simp_all add: grf_files read_time_tags_fields A(1,2) len)
  then show "as_vector n (accelerations st') = realized_accelerations fr"
    by (intro nth_equalityI) (simp_all add: len realized_accelerations_def)
  have "dynamics st' = (\<lambda>j. if j < min (2 * n) n then torque_row fr ! j else dynamics ?stg j)"
    unfolding st'_def read_payload_def
    by (rule dofs_dynamics [where rest = "row_tokens torque_row rest"])
       (simp_all add: grf_files read_time_tags_fields D(1,2) len)
  then show "as_vector n (dynamics st') = torque_row fr"
    by (intro nth_equalityI) (simp_all add: len)
  have "grfs ?stg = (\<lambda>j. if j < expectedGRFSize then grf_row fr ! j else grfs ?st1 j)"
    by (rule grf_values [where rest = "row_tokens grf_row rest"])
       (simp_all add: read_time_tags_fields G(1,2) len)
  then show "\<forall>j<expectedGRFSize. grfs st' j = grf_row fr ! j"
    by (simp add: st'_def read_payload_def dofs_files)
qed

lemma body_step_channels:
  assumes "\<forall>j<expectedGRFSize. g j = g' j"
  shows "body_step e si g = body_step e si g'"
proof -
  have "groundRightMoment g = groundRightMoment g'" "groundRightForce g = groundRightForce g'"
    "groundRightCOP g = groundRightCOP g'" "groundLeftMoment g = groundLeftMoment g'"
    "groundLeftForce g = groundLeftForce g'" "groundLeftCOP g = groundLeftCOP g'"
    using assms
    by (simp_all add: groundRightMoment_def groundRightForce_def groundRightCOP_def
        groundLeftMoment_def groundLeftForce_def groundLeftCOP_def vec3_at_def
        expectedGRFSize_def)
  then show ?thesis
    by (simp add: body_step_def fun_eq_iff)
qed

lemma compute_frame_channels:
  "\<forall>j<expectedGRFSize. g j = g' j \<Longrightarrow>
     compute_frame e u si acc g = compute_frame e u si acc g'"
  by (simp add: compute_frame_def body_step_channels [of g g'])

lemma body_loop_lengths:
  assumes "\<And>b p w. length (multiplyByFrameJacobianTranspose e si b p w) = n"
  shows "length (rightGRFTorques (foldl (body_step e si g) f js)) =
           (if \<exists>j\<in>set js. bodyName e j = ''calcn_r'' then n else length (rightGRFTorques f))"
    and "length (leftGRFTorques (foldl (body_step e si g) f js)) =
           (if \<exists>j\<in>set js. bodyName e j = ''calcn_l'' then n else length (leftGRFTorques f))"
  by (induction js arbitrary: f; simp add: body_step_def Let_def assms)+

lemma compute_frame_supported:
  assumes "supported_model e" and "length acc = numMobilities e"
  shows "\<exists>f. compute_frame e u si acc g = Inr f
           \<and> length (inertiaTorques f) = numMobilities e
           \<and> length (gravityTorques f) = numMobilities e
           \<and> length (coriolisTorques f) = numMobilities e
           \<and> length (rightGRFTorques f) = numMobilities e
           \<and> length (leftGRFTorques f) = numMobilities e"
proof -
  let ?n = "numMobilities e"
  have nb: "numBodies e \<le> centrifugal_capacity"
    and r: "\<exists>j<numBodies e. bodyName e j = ''calcn_r''"
    and l: "\<exists>j<numBodies e. bodyName e j = ''calcn_l''"
    and m: "length (multiplyByM e si acc) = ?n"
    and j: "\<And>F. length (multiplyBySystemJacobianTranspose e si F) = ?n"
    and fj: "\<And>b p w. length (multiplyByFrameJacobianTranspose e si b p w) = ?n"
    using assms unfolding supported_model_def by blast+
  obtain F where F: "totalCentrifugalForces_reference e si u = Inr F"
    using nb by (simp add: totalCentrifugalForces_reference_def totalCentrifugalForces_eq)
  let ?f0 = "\<lparr>inertiaTorques = multiplyByM e si acc,
      gravityTorques = multiplyBySystemJacobianTranspose e si (gravityBodyForces e si),
      coriolisTorques = multiplyBySystemJacobianTranspose e si F,
      rightGRFTorques = [], leftGRFTorques = [],
      rightAPOJacobian = [], leftAPOJacobian = []\<rparr>"
  let ?f = "foldl (body_step e si g) ?f0 [0..<numBodies e]"
  have c: "compute_frame e u si acc g = Inr ?f"
    by (simp add: compute_frame_def F)
  have "length (rightGRFTorques ?f) = ?n" "length (leftGRFTorques ?f) = ?n"
    using r l by (auto simp: body_loop_lengths [where n = ?n, OF fj])
  moreover have "length (inertiaTorques ?f) = ?n" "length (gravityTorques ?f) = ?n"
    "length (coriolisTorques ?f) = ?n"
    by (simp_all add: body_loop_keeps m j)
  ultimately show ?thesis using c by blast
qed

lemma frame_step:
  assumes "supported_model e" and "holds_frames st (fr # rest)"
    and "well_formed (numMobilities e) fr"
  shows "\<not> eofbit (states_file (read_time_tags st))"
    and "\<exists>r st2. frame_rows e u fr = Inr r \<and> process_frame e u (read_time_tags st) = Inr st2
           \<and> holds_frames st2 rest \<and> \<not> first_frame st2
           \<and> leftAPOJacobian_file st2 =
               leftAPOJacobian_file st @ (if first_frame st then [] else left_block r)
           \<and> rightAPOJacobian_file st2 =
               rightAPOJacobian_file st @ (if first_frame st then [] else right_block r)
           \<and> residualForce_file st2 =
               residualForce_file st @ (if first_frame st then [] else [residual_row r])
           \<and> internalForce_file st2 =
               internalForce_file st @ (if first_frame st then [] else [internal_row r])"
proof -
  let ?n = "numMobilities e"
  let ?st' = "read_payload ?n (read_time_tags st)"
  have pos: "0 < ?n" using assms(1) by (simp add: supported_model_def)
  note R = read_frame [OF assms(2,3)]
  show "\<not> eofbit (states_file (read_time_tags st))" using R(6) pos by simp
  have la: "length (realized_accelerations fr) = ?n"
    using assms(3) by (simp add: realized_accelerations_def well_formed_def)
  have lt: "length (torque_row fr) = ?n"
    using assms(3) by (simp add: well_formed_def)
  obtain f where f: "compute_frame e u (state_row fr) (realized_accelerations fr)
        (\<lambda>j. grf_row fr ! j) = Inr f"
    and len: "length (inertiaTorques f) = ?n" "length (gravityTorques f) = ?n"
      "length (coriolisTorques f) = ?n" "length (rightGRFTorques f) = ?n"
      "length (leftGRFTorques f) = ?n"
    using compute_frame_supported [OF assms(1) la] by blast
  have f': "compute_frame e u (as_vector (2 * ?n) (states ?st'))
      (as_vector ?n (accelerations ?st')) (grfs ?st') = Inr f"
    unfolding R(2,3) using compute_frame_channels [OF R(5)] f by simp
  obtain res where res: "residualForce (gravityTorques f) (inertiaTorques f) (torque_row fr)
      (coriolisTorques f) (rightGRFTorques f) (leftGRFTorques f) = Inr res"
    using residualForce_conformant [OF len(2,1) lt len(3,4,5)] by blast
  obtain int where int: "internalForce (inertiaTorques f) (gravityTorques f)
      (coriolisTorques f) (rightGRFTorques f) (leftGRFTorques f) = Inr int"
    using internalForce_conformant [OF len(2,1,3,4,5)] by blast
  let ?r = "\<lparr>left_block = leftAPOJacobian f, right_block = rightAPOJacobian f,
      residual_row = res, internal_row = int\<rparr>"
  have rows: "frame_rows e u fr = Inr ?r"
    by (simp add: frame_rows_def f res int)
  have keep: "holds_frames (st2\<lparr>first_frame := b\<rparr>) rest = holds_frames st2 rest"
    "holds_frames (st2\<lparr>leftAPOJacobian_file := x1, rightAPOJacobian_file := x2,
        residualForce_file := x3, internalForce_file := x4\<rparr>) rest = holds_frames st2 rest"
    for st2 b x1 x2 x3 x4
    by (simp_all add: holds_frames_def)
  show "\<exists>r st2. frame_rows e u fr = Inr r \<and> process_frame e u (read_time_tags st) = Inr st2
           \<and> holds_frames st2 rest \<and> \<not> first_frame st2
           \<and> leftAPOJacobian_file st2 =
               leftAPOJacobian_file st @ (if first_frame st then [] else left_block r)
           \<and> rightAPOJacobian_file st2 =
               rightAPOJacobian_file st @ (if first_frame st then [] else right_block r)
           \<and> residualForce_file st2 =
               residualForce_file st @ (if first_frame st then [] else [residual_row r])
           \<and> internalForce_file st2 =
               internalForce_file st @ (if first_frame st then [] else [internal_row r])"
  proof (cases "first_frame st")
    case True
    then have "process_frame e u (read_time_tags st) = Inr (?st'\<lparr>first_frame := False\<rparr>)"
      by (simp add: process_frame_def Let_def f' write_outputs_def read_payload_fields
          read_time_tags_fields)
    with True rows R(1) show ?thesis
      by (simp add: keep read_payload_fields read_time_tags_fields)
  next
    case False
    then have "process_frame e u (read_time_tags st) =
        Inr (?st'\<lparr>leftAPOJacobian_file := leftAPOJacobian_file ?st' @ leftAPOJacobian f,
               rightAPOJacobian_file := rightAPOJacobian_file ?st' @ rightAPOJacobian f,
               residualForce_file := residualForce_file ?st' @ [res],
               internalForce_file := internalForce_file ?st' @ [int]\<rparr>)"
      by (simp add: process_frame_def Let_def f' write_outputs_def R(4) res int
          read_payload_fields read_time_tags_fields)
    with False rows R(1) show ?thesis
      by (simp add: keep read_payload_fields read_time_tags_fields)
  qed
qed

lemma loop_at_end:
  assumes "stream_ok (states_file st)" "toks (states_file st) = []"
  shows "frame_loop (Suc k) e u st = Some (Inr (read_time_tags st))"
proof -
  have "eofbit (advance (states_file st))"
    using assms by (auto simp: advance_def stream_ok_def)
  then show ?thesis by (simp add: read_time_tags_fields)
qed

lemma frames_loop:
  assumes "supported_model e" and "\<forall>fr\<in>set frs. well_formed (numMobilities e) fr"
    and "holds_frames st frs"
  shows "\<exists>fuel st' rows. frame_loop fuel e u st = Some (Inr st')
           \<and> list_all2 (\<lambda>fr r. frame_rows e u fr = Inr r)
                (if first_frame st then tl frs else frs) rows
           \<and> leftAPOJacobian_file st' = leftAPOJacobian_file st @ concat (map left_block rows)
           \<and> rightAPOJacobian_file st' = rightAPOJacobian_file st @ concat (map right_block rows)
           \<and> residualForce_file st' = residualForce_file st @ map residual_row rows
           \<and> internalForce_file st' = internalForce_file st @ map internal_row rows"
  using assms(2,3)
proof (induction frs arbitrary: st)
  case Nil
  then have "frame_loop (Suc 0) e u st = Some (Inr (read_time_tags st))"
    by (intro loop_at_end) (simp_all add: holds_frames_def row_tokens_Nil)
  then show ?case
    by (intro exI [of _ "Suc 0"] exI [of _ "read_time_tags st"] exI [of _ "[]"])
       (simp add: read_time_tags_fields)
next
  case (Cons fr rest)
  from Cons.prems have wf: "well_formed (numMobilities e) fr"
    and wfr: "\<forall>fr\<in>set rest. well_formed (numMobilities e) fr" by simp_all
  note step1 = frame_step(1) [OF assms(1) Cons.prems(2) wf]
  note step2 = frame_step(2) [OF assms(1) Cons.prems(2) wf, where u = u]
  from step2 obtain r st2 where r: "frame_rows e u fr = Inr r"
    and p: "process_frame e u (read_time_tags st) = Inr st2"
    and h: "holds_frames st2 rest" and nf: "\<not> first_frame st2"
    and files: "leftAPOJacobian_file st2 =
        leftAPOJacobian_file st @ (if first_frame st then [] else left_block r)"
      "rightAPOJacobian_file st2 =
        rightAPOJacobian_file st @ (if first_frame st then [] else right_block r)"
      "residualForce_file st2 =
        residualForce_file st @ (if first_frame st then [] else [residual_row r])"
      "internalForce_file st2 =
        internalForce_file st @ (if first_frame st then [] else [internal_row r])"
    by blast
  from Cons.IH [OF wfr h] nf obtain fuel st' rows where
    l: "frame_loop fuel e u st2 = Some (Inr st')"
    and rows: "list_all2 (\<lambda>fr r. frame_rows e u fr = Inr r) rest rows"
    and out: "leftAPOJacobian_file st' = leftAPOJacobian_file st2 @ concat (map left_block rows)"
      "rightAPOJacobian_file st' = rightAPOJacobian_file st2 @ concat (map right_block rows)"
      "residualForce_file st' = residualForce_file st2 @ map residual_row rows"
      "internalForce_file st' = internalForce_file st2 @ map internal_row rows"
    by auto
  have run: "frame_loop (Suc fuel) e u st = Some (Inr st')"
    using step1 p l by simp
  show ?case
  proof (cases "first_frame st")
    case True
    with run rows out files show ?thesis
      by (intro exI [of _ "Suc fuel"] exI [of _ st'] exI [of _ rows]) simp
  next
    case False
    with run rows out files r show ?thesis
      by (intro exI [of _ "Suc fuel"] exI [of _ st'] exI [of _ "r # rows"]) simp
  qed
qed

lemma demo_engine_supported: "supported_model demo_engine"
  unfolding supported_model_def
  by (auto simp: demo_engine_def centrifugal_capacity_def intro: exI [of _ 1] exI [of _ 2])

lemma demo_rows:
  "frame_rows demo_engine (\<lambda>j. SpatialVec_zero)
     \<lparr>time_tag = t, grf_row = replicate 18 0, state_row = [0, 0], acc_row = [a],
      torque_row = [0]\<rparr> =
   Inr \<lparr>left_block = demo_jacobian, right_block = demo_jacobian,
        residual_row = [- 5 - a * pi / 180], internal_row = [a * pi / 180 + 5]\<rparr>"
  by (simp add: frame_rows_def realized_accelerations_def convert_at_def to_radians_pi
      compute_frame_def totalCentrifugalForces_reference_def
      totalCentrifugalForces_eq centrifugal_capacity_def demo_engine_def
      as_vector_def force_y_def SpatialVec_zero_def Vec3_zero_def body_step_def
      groundLeftMoment_def groundLeftForce_def groundRightMoment_def groundRightForce_def
      vec3_at_def residualForce_def internalForce_def vec_add_def vec_sub_def
      demo_jacobian_def upt_rec [of _ "numeral _"] upt_rec [of _ "Suc _"])

text \<open>
  Claim C5. When the four streams hold \<open>F\<close> aligned frames, the run ends with \<open>F - 1\<close> residual rows,
  \<open>F - 1\<close> internal-force rows and \<open>F - 1\<close> blocks in each Jacobian file: nothing is written for
  the first frame, and what is written for a later frame is computed from that frame alone.
\<close>

theorem rows_from_second_frame:
  assumes "supported_model e" and "\<forall>fr\<in>set frs. well_formed (numMobilities e) fr"
    and "holds_frames st frs" and "first_frame st"
    and "leftAPOJacobian_file st = []" and "rightAPOJacobian_file st = []"
    and "residualForce_file st = []" and "internalForce_file st = []"
  shows "\<exists>fuel st' rows. frame_loop fuel e u st = Some (Inr st')
           \<and> list_all2 (\<lambda>fr r. frame_rows e u fr = Inr r) (tl frs) rows
           \<and> length rows = length frs - 1
           \<and> leftAPOJacobian_file st' = concat (map left_block rows)
           \<and> rightAPOJacobian_file st' = concat (map right_block rows)
           \<and> residualForce_file st' = map residual_row rows
           \<and> internalForce_file st' = map internal_row rows"
proof -
  from frames_loop [OF assms(1,2,3), where u = u] assms(4) obtain fuel st' rows where
    l: "frame_loop fuel e u st = Some (Inr st')"
    and rows: "list_all2 (\<lambda>fr r. frame_rows e u fr = Inr r) (tl frs) rows"
    and out: "leftAPOJacobian_file st' = leftAPOJacobian_file st @ concat (map left_block rows)"
      "rightAPOJacobian_file st' = rightAPOJacobian_file st @ concat (map right_block rows)"
      "residualForce_file st' = residualForce_file st @ map residual_row rows"
      "internalForce_file st' = internalForce_file st @ map internal_row rows"
    by auto
  from rows have "length rows = length frs - 1"
    by (simp add: list_all2_lengthD [symmetric])
  with l rows out assms(5-8) show ?thesis by auto
qed

theorem rows_from_second_frame_witness:
  "supported_model demo_engine
   \<and> list_all (well_formed (numMobilities demo_engine)) demo_frames
   \<and> holds_frames demo_start demo_frames \<and> first_frame demo_start
   \<and> leftAPOJacobian_file demo_start = [] \<and> rightAPOJacobian_file demo_start = []
   \<and> residualForce_file demo_start = [] \<and> internalForce_file demo_start = []
   \<and> length demo_frames = 3
   \<and> (\<exists>fuel st'. frame_loop fuel demo_engine (\<lambda>j. SpatialVec_zero) demo_start = Some (Inr st')
         \<and> leftAPOJacobian_file st' = demo_jacobian @ demo_jacobian
         \<and> rightAPOJacobian_file st' = demo_jacobian @ demo_jacobian
         \<and> residualForce_file st' = [[- 5 - pi], [- 5]]
         \<and> internalForce_file st' = [[pi + 5], [5]])"
proof -
  have wf: "\<forall>fr\<in>set demo_frames. well_formed (numMobilities demo_engine) fr"
    by (simp add: demo_frames_def well_formed_def demo_engine_def expectedGRFSize_def)
  have h: "holds_frames demo_start demo_frames"
    by (simp add: holds_frames_def demo_start_def idle_state_def opened_def stream_ok_def)
  have i: "first_frame demo_start" "leftAPOJacobian_file demo_start = []"
    "rightAPOJacobian_file demo_start = []" "residualForce_file demo_start = []"
    "internalForce_file demo_start = []"
    by (simp_all add: demo_start_def idle_state_def)
  from rows_from_second_frame [OF demo_engine_supported wf h i, of "\<lambda>j. SpatialVec_zero"]
  obtain fuel st' rows where
    l: "frame_loop fuel demo_engine (\<lambda>j. SpatialVec_zero) demo_start = Some (Inr st')"
    and rows: "list_all2 (\<lambda>fr r. frame_rows demo_engine (\<lambda>j. SpatialVec_zero) fr = Inr r)
        (tl demo_frames) rows"
    and out: "leftAPOJacobian_file st' = concat (map left_block rows)"
      "rightAPOJacobian_file st' = concat (map right_block rows)"
      "residualForce_file st' = map residual_row rows"
      "internalForce_file st' = map internal_row rows"
    by blast
  from rows have "rows =
      [\<lparr>left_block = demo_jacobian, right_block = demo_jacobian,
        residual_row = [- 5 - pi], internal_row = [pi + 5]\<rparr>,
       \<lparr>left_block = demo_jacobian, right_block = demo_jacobian,
        residual_row = [- 5], internal_row = [5]\<rparr>]"
    by (auto simp: demo_frames_def demo_rows list_all2_Cons1)
  with l out have "\<exists>fuel st'. frame_loop fuel demo_engine (\<lambda>j. SpatialVec_zero) demo_start
         = Some (Inr st')
         \<and> leftAPOJacobian_file st' = demo_jacobian @ demo_jacobian
         \<and> rightAPOJacobian_file st' = demo_jacobian @ demo_jacobian
         \<and> residualForce_file st' = [[- 5 - pi], [- 5]]
         \<and> internalForce_file st' = [[pi + 5], [5]]"
    by auto
  moreover have "length demo_frames = 3" by (simp add: demo_frames_def)
  ultimately show ?thesis
    using demo_engine_supported wf h i by (simp add: list_all_iff)
qed

subsection \<open>Termination of the frame loop\<close>

lemma advance_all_convert:
  assumes "all_convert s"
  shows "all_convert (advance s)" "length (toks (advance s)) \<le> length (toks s)"
    "\<not> eofbit (advance s) \<Longrightarrow> length (toks (advance s)) < length (toks s)"
  using assms
  by (auto simp: all_convert_def advance_def split: list.splits token.splits if_splits)

lemma advance_pow_all_convert:
  "all_convert s \<Longrightarrow>
     all_convert ((advance ^^ k) s) \<and> length (toks ((advance ^^ k) s)) \<le> length (toks s)"
proof (induction k)
  case 0
  then show ?case by simp
next
  case (Suc k)
  then show ?case
    using advance_all_convert(1,2) [of "(advance ^^ k) s"] by fastforce
qed

lemma write_outputs_streams:
  assumes "write_outputs n f st = Inr st2"
  shows "states_file st2 = states_file st"
  using assms
  by (auto simp: write_outputs_def and_then_def split: if_splits sum.splits)

lemma process_frame_states_file:
  assumes "process_frame e u st = Inr st2"
  shows "states_file st2 = (advance ^^ (2 * numMobilities e)) (states_file st)"
  using assms
  by (auto simp: process_frame_def Let_def and_then_def read_payload_fields
      dest!: write_outputs_streams split: sum.splits)

lemma loop_terminates:
  "all_convert (states_file st) \<Longrightarrow>
     \<exists>fuel r. frame_loop fuel e u st = Some r
       \<and> (\<forall>st'. r = Inr st' \<longrightarrow> eofbit (states_file st'))"
proof (induction "length (toks (states_file st))" arbitrary: st rule: less_induct)
  case less
  let ?st1 = "read_time_tags st"
  have nj: "all_convert (states_file ?st1)"
    using advance_all_convert(1) [OF less.prems] by (simp add: read_time_tags_fields)
  show ?case
  proof (cases "eofbit (states_file ?st1)")
    case True
    then have "frame_loop (Suc 0) e u st = Some (Inr ?st1)" by simp
    with True show ?thesis by blast
  next
    case False
    then have dec: "length (toks (states_file ?st1)) < length (toks (states_file st))"
      using advance_all_convert(3) [OF less.prems] by (simp add: read_time_tags_fields)
    show ?thesis
    proof (cases "process_frame e u ?st1")
      case (Inl err)
      with False have "frame_loop (Suc 0) e u st = Some (Inl err)" by simp
      then show ?thesis by blast
    next
      case (Inr st2)
      then have sf: "states_file st2 = (advance ^^ (2 * numMobilities e)) (states_file ?st1)"
        by (rule process_frame_states_file)
      have nj2: "all_convert (states_file st2)"
        and le: "length (toks (states_file st2)) \<le> length (toks (states_file ?st1))"
        using advance_pow_all_convert [OF nj, of "2 * numMobilities e"] by (simp_all add: sf)
      from le dec have "length (toks (states_file st2)) < length (toks (states_file st))"
        by simp
      from less.hyps [OF this nj2] obtain fuel r where
        r: "frame_loop fuel e u st2 = Some r"
        "\<forall>st'. r = Inr st' \<longrightarrow> eofbit (states_file st')" by blast
      from False Inr r(1) have "frame_loop (Suc fuel) e u st = Some r" by simp
      with r(2) show ?thesis by blast
    qed
  qed
qed

lemma process_frame_supported:
  assumes "supported_model e"
  shows "\<exists>st2. process_frame e u st = Inr st2"
proof -
  let ?n = "numMobilities e"
  let ?st' = "read_payload ?n st"
  obtain f where f: "compute_frame e u (as_vector (2 * ?n) (states ?st'))
        (as_vector ?n (accelerations ?st')) (grfs ?st') = Inr f"
    and len: "length (inertiaTorques f) = ?n" "length (gravityTorques f) = ?n"
      "length (coriolisTorques f) = ?n" "length (rightGRFTorques f) = ?n"
      "length (leftGRFTorques f) = ?n"
    using compute_frame_supported [OF assms as_vector_length] by blast
  have "\<exists>st2. write_outputs ?n f ?st' = Inr st2"
  proof (cases "first_frame ?st'")
    case True
    then show ?thesis by (simp add: write_outputs_def)
  next
    case False
    then show ?thesis
      using residualForce_conformant [OF len(2,1) as_vector_length len(3,4,5)]
        internalForce_conformant [OF len(2,1,3,4,5)]
      by (simp add: write_outputs_def)
  qed
  then show ?thesis
    by (simp add: process_frame_def Let_def f)
qed

text \<open>
  Claim C8, as amended. When the states file was opened and holds numerals in the range of
  \<open>double\<close> only, the loop returns with enough fuel, whatever the other three streams hold;
  when it returns from the \<open>break\<close> the end-of-file flag of the states stream is set. One
  round stops exactly when that flag is set after the time tag was read, and goes on with
  the frame otherwise.
\<close>

theorem loop_ends_at_states_eof:
  assumes "toks (states_file st) = map numeral_token rs"
    and "\<forall>r\<in>set rs. in_double_range r"
    and "failbit (states_file st) \<longrightarrow> eofbit (states_file st)"
  shows "(\<exists>fuel r. frame_loop fuel e u st = Some r
            \<and> (\<forall>st'. r = Inr st' \<longrightarrow> eofbit (states_file st')))
       \<and> (eofbit (advance (states_file st))
            \<longrightarrow> frame_loop (Suc k) e u st = Some (Inr (read_time_tags st)))
       \<and> (\<not> eofbit (advance (states_file st))
            \<longrightarrow> frame_loop (Suc k) e u st =
                 (case process_frame e u (read_time_tags st) of
                    Inl err \<Rightarrow> Some (Inl err)
                  | Inr st2 \<Rightarrow> frame_loop k e u st2))"
proof -
  have "0 < double_overflow" by (simp add: double_overflow_def)
  then have "all_convert (states_file st)"
    using assms by (auto simp: all_convert_def numeral_token_def in_double_range_def)
  then show ?thesis
    using loop_terminates [of st e u] by (simp add: read_time_tags_fields)
qed

theorem loop_ends_at_states_eof_witness:
  "toks (states_file demo_start) = map numeral_token [0, 0, 0, 1, 0, 0, 2, 0, 0]
   \<and> list_all in_double_range [0, 0, 0, 1, 0, 0, 2, 0, 0]
   \<and> \<not> failbit (states_file demo_start)
   \<and> (\<exists>fuel r. frame_loop fuel demo_engine (\<lambda>j. SpatialVec_zero) demo_start = Some r
          \<and> (\<forall>st'. r = Inr st' \<longrightarrow> eofbit (states_file st')))
   \<and> \<not> eofbit (advance (states_file demo_start))
   \<and> frame_loop (Suc 0) demo_engine (\<lambda>j. SpatialVec_zero) demo_start = None
   \<and> toks (states_file idle_state) = map numeral_token []
   \<and> eofbit (advance (states_file idle_state))
   \<and> frame_loop (Suc 0) demo_engine (\<lambda>j. SpatialVec_zero) idle_state =
        Some (Inr (read_time_tags idle_state))"
proof -
  have r: "\<forall>r\<in>set [0, 0, 0, 1, 0, 0, 2, 0, 0::real]. in_double_range r"
    "\<forall>r\<in>set ([]::real list). in_double_range r"
    by (simp_all add: in_double_range_def double_overflow_def DBL_MIN_def)
  have a: "toks (states_file demo_start) = map numeral_token [0, 0, 0, 1, 0, 0, 2, 0, 0]"
    "failbit (states_file demo_start) \<longrightarrow> eofbit (states_file demo_start)"
    "\<not> eofbit (advance (states_file demo_start))"
    by (simp_all add: demo_start_def idle_state_def opened_def demo_frames_def row_tokens_def
        advance_def numeral_token_def double_overflow_def)
  have b: "toks (states_file idle_state) = map numeral_token []"
    "failbit (states_file idle_state) \<longrightarrow> eofbit (states_file idle_state)"
    "eofbit (advance (states_file idle_state))"
    by (simp_all add: idle_state_def opened_def advance_def)
  have c: "\<not> failbit (states_file demo_start)"
    by (simp add: demo_start_def idle_state_def opened_def)
  obtain st2 where p: "process_frame demo_engine (\<lambda>j. SpatialVec_zero)
      (read_time_tags demo_start) = Inr st2"
    using process_frame_supported [OF demo_engine_supported] by blast
  show ?thesis
    using loop_ends_at_states_eof [OF a(1) r(1) a(2), of demo_engine "\<lambda>j. SpatialVec_zero" 0]
      loop_ends_at_states_eof [OF b(1) r(2) b(2), of demo_engine "\<lambda>j. SpatialVec_zero" 0]
      a b c p r
    by (simp add: list_all_iff)
qed

lemma advance_stuck: "stuck s \<Longrightarrow> stuck (advance s)"
  by (auto simp: stuck_def advance_def)

lemma advance_pow_stuck: "stuck s \<Longrightarrow> stuck ((advance ^^ k) s)"
  by (induction k) (simp_all add: advance_stuck)

lemma stuck_loop:
  "stuck (advance (states_file st)) \<Longrightarrow> frame_loop fuel demo_engine u st = None"
proof (induction fuel arbitrary: st)
  case 0
  then show ?case by simp
next
  case (Suc fuel)
  let ?st1 = "read_time_tags st"
  have s1: "stuck (states_file ?st1)"
    using Suc.prems by (simp add: read_time_tags_fields)
  then have ne: "\<not> eofbit (states_file ?st1)" by (simp add: stuck_def)
  obtain st2 where p: "process_frame demo_engine u ?st1 = Inr st2"
    using process_frame_supported [OF demo_engine_supported] by blast
  then have "states_file st2 = (advance ^^ (2 * numMobilities demo_engine)) (states_file ?st1)"
    by (rule process_frame_states_file)
  then have "stuck (states_file st2)"
    using advance_pow_stuck [OF s1] by simp
  then have "stuck (advance (states_file st2))" by (rule advance_stuck)
  then have "frame_loop fuel demo_engine u st2 = None" by (rule Suc.IH)
  with ne p show ?case by simp
qed

text \<open>
  Claim C8, as stated, fails: the loop does not end for every finite input. At the text
  \<open>abc\<close>, and at the numeral \<open>1e309\<close> followed by more of the file, the states stream sets
  \<open>failbit\<close> and not \<open>eofbit\<close>; no later extraction reads on, and no amount of fuel lets the
  loop return.
\<close>

theorem failed_extraction_loops_forever:
  "(\<forall>fuel. frame_loop fuel demo_engine (\<lambda>j. SpatialVec_zero) text_state = None)
   \<and> numeral_token (10 ^ 309) = Bad True DBL_MAX
   \<and> (\<forall>fuel. frame_loop fuel demo_engine (\<lambda>j. SpatialVec_zero) overflow_state = None)"
proof -
  have n: "numeral_token (10 ^ 309) = Bad True DBL_MAX"
    by (simp add: numeral_token_def double_overflow_def)
  have "stuck (advance (states_file text_state))"
    by (simp add: stuck_def text_state_def idle_state_def opened_def advance_def)
  moreover have "map numeral_token [10 ^ 309, 5] = [Bad True DBL_MAX, numeral_token 5]"
    by (simp only: list.map n)
  then have "stuck (advance (states_file overflow_state))"
    unfolding overflow_state_def
    by (simp add: stuck_def idle_state_def opened_def advance_def)
  ultimately show ?thesis
    using n by (simp add: stuck_loop)
qed

subsection \<open>Bodies that the model does not have\<close>

lemma sums_with_empty_contact:
  assumes "gravityTorques f \<noteq> []" and "rightGRFTorques f = [] \<or> leftGRFTorques f = []"
    and "\<not> first_frame st"
  shows "write_outputs n f st = Inl SizeMismatch"
proof -
  have "residualForce (gravityTorques f) (inertiaTorques f) (as_vector n (dynamics st))
      (coriolisTorques f) (rightGRFTorques f) (leftGRFTorques f) = Inl SizeMismatch"
    using assms(1,2)
    by (auto simp: residualForce_def and_then_def vec_add_def vec_sub_def split: sum.splits)
  then show ?thesis
    using assms(3) by (simp add: write_outputs_def)
qed

lemma anonymous_frame:
  "compute_frame anonymous_engine (\<lambda>j. SpatialVec_zero) [0, 0] [0] (\<lambda>j. 0) =
     Inr \<lparr>inertiaTorques = [0], gravityTorques = [- 5], coriolisTorques = [0],
          rightGRFTorques = [], leftGRFTorques = [],
          rightAPOJacobian = [], leftAPOJacobian = []\<rparr>"
  by (simp add: compute_frame_def totalCentrifugalForces_reference_def
      totalCentrifugalForces_eq centrifugal_capacity_def anonymous_engine_def demo_engine_def
      as_vector_def force_y_def SpatialVec_zero_def Vec3_zero_def body_step_def
      upt_rec [of _ "numeral _"] upt_rec [of _ "Suc _"])

text \<open>
  Claim C7, as amended. When no body of the model has one of the four names, the contact
  torque or Jacobian of that name is computed in no frame and stays the empty
  default-constructed value. An empty Jacobian adds no rows to its file; an empty contact
  torque makes the sums of a written frame a size mismatch as soon as the gravity
  contribution is not empty.
\<close>

theorem absent_body_keeps_empty_default:
  assumes "compute_frame e u si acc g = Inr f"
  shows "((\<forall>j<numBodies e. bodyName e j \<noteq> ''calcn_r'') \<longrightarrow> rightGRFTorques f = []
            \<and> (gravityTorques f \<noteq> [] \<and> \<not> first_frame st
                 \<longrightarrow> write_outputs n f st = Inl SizeMismatch))
       \<and> ((\<forall>j<numBodies e. bodyName e j \<noteq> ''calcn_l'') \<longrightarrow> leftGRFTorques f = []
            \<and> (gravityTorques f \<noteq> [] \<and> \<not> first_frame st
                 \<longrightarrow> write_outputs n f st = Inl SizeMismatch))
       \<and> ((\<forall>j<numBodies e. bodyName e j \<noteq> ''femur_r'') \<longrightarrow> rightAPOJacobian f = [])
       \<and> ((\<forall>j<numBodies e. bodyName e j \<noteq> ''femur_l'') \<longrightarrow> leftAPOJacobian f = [])"
proof -
  from assms obtain F where
    f: "f = foldl (body_step e si g)
          \<lparr>inertiaTorques = multiplyByM e si acc,
           gravityTorques = multiplyBySystemJacobianTranspose e si (gravityBodyForces e si),
           coriolisTorques = multiplyBySystemJacobianTranspose e si F,
           rightGRFTorques = [], leftGRFTorques = [],
           rightAPOJacobian = [], leftAPOJacobian = []\<rparr> [0..<numBodies e]"
    by (auto simp: compute_frame_def and_then_def split: sum.splits)
  have r: "rightGRFTorques f = []" if "\<forall>j<numBodies e. bodyName e j \<noteq> ''calcn_r''"
    unfolding f using that by (subst body_loop_absent(1)) simp_all
  have l: "leftGRFTorques f = []" if "\<forall>j<numBodies e. bodyName e j \<noteq> ''calcn_l''"
    unfolding f using that by (subst body_loop_absent(2)) simp_all
  have jr: "rightAPOJacobian f = []" if "\<forall>j<numBodies e. bodyName e j \<noteq> ''femur_r''"
    unfolding f using that by (subst body_loop_absent(3)) simp_all
  have jl: "leftAPOJacobian f = []" if "\<forall>j<numBodies e. bodyName e j \<noteq> ''femur_l''"
    unfolding f using that by (subst body_loop_absent(4)) simp_all
  show ?thesis
    using r l jr jl sums_with_empty_contact [of f st n] by blast
qed

theorem absent_body_keeps_empty_default_witness:
  "compute_frame anonymous_engine (\<lambda>j. SpatialVec_zero) [0, 0] [0] (\<lambda>j. 0) =
     Inr \<lparr>inertiaTorques = [0], gravityTorques = [- 5], coriolisTorques = [0],
          rightGRFTorques = [], leftGRFTorques = [],
          rightAPOJacobian = [], leftAPOJacobian = []\<rparr>
   \<and> \<not> (\<exists>j<numBodies anonymous_engine. bodyName anonymous_engine j = ''calcn_r'')
   \<and> \<not> (\<exists>j<numBodies anonymous_engine. bodyName anonymous_engine j = ''calcn_l'')
   \<and> \<not> (\<exists>j<numBodies anonymous_engine. bodyName anonymous_engine j = ''femur_r'')
   \<and> \<not> (\<exists>j<numBodies anonymous_engine. bodyName anonymous_engine j = ''femur_l'')
   \<and> \<not> first_frame idle_state
   \<and> write_outputs 1 \<lparr>inertiaTorques = [0], gravityTorques = [- 5], coriolisTorques = [0],
          rightGRFTorques = [], leftGRFTorques = [],
          rightAPOJacobian = [], leftAPOJacobian = []\<rparr> idle_state = Inl SizeMismatch"
proof -
  have names: "\<forall>j<numBodies anonymous_engine. bodyName anonymous_engine j \<noteq> ''calcn_r''"
    "\<forall>j<numBodies anonymous_engine. bodyName anonymous_engine j \<noteq> ''calcn_l''"
    "\<forall>j<numBodies anonymous_engine. bodyName anonymous_engine j \<noteq> ''femur_r''"
    "\<forall>j<numBodies anonymous_engine. bodyName anonymous_engine j \<noteq> ''femur_l''"
    by (simp_all add: anonymous_engine_def)
  have nf: "\<not> first_frame idle_state" by (simp add: idle_state_def)
  from absent_body_keeps_empty_default [OF anonymous_frame, of idle_state 1] names nf
    anonymous_frame
  show ?thesis by simp
qed

text \<open>
  Claim C7, as stated, fails: for a model without \<open>calcn_r\<close> the right contact torque is not
  a zero vector of length \<open>n\<close> that enters the sums, it is empty and the sums do not
  evaluate.
\<close>

theorem absent_calcn_r_is_not_zero_contribution:
  "\<not> (\<exists>j<numBodies one_foot_engine. bodyName one_foot_engine j = ''calcn_r'')
   \<and> compute_frame one_foot_engine (\<lambda>j. SpatialVec_zero) [0, 0] [0] (\<lambda>j. 0) =
       Inr \<lparr>inertiaTorques = [0], gravityTorques = [- 5], coriolisTorques = [0],
            rightGRFTorques = [], leftGRFTorques = [0],
            rightAPOJacobian = [[0], [0], [1], [0], [1], [0]],
            leftAPOJacobian = [[0], [0], [1], [0], [1], [0]]\<rparr>
   \<and> [] \<noteq> replicate (numMobilities one_foot_engine) (0::real)
   \<and> and_then (compute_frame one_foot_engine (\<lambda>j. SpatialVec_zero) [0, 0] [0] (\<lambda>j. 0))
        (\<lambda>f. write_outputs 1 f idle_state) = Inl SizeMismatch"
  by (simp add: compute_frame_def totalCentrifugalForces_reference_def
      totalCentrifugalForces_eq centrifugal_capacity_def one_foot_engine_def demo_engine_def
      as_vector_def force_y_def SpatialVec_zero_def Vec3_zero_def body_step_def
      groundLeftMoment_def groundLeftForce_def vec3_at_def
      write_outputs_def idle_state_def residualForce_def vec_add_def vec_sub_def
      upt_rec [of _ "numeral _"] upt_rec [of _ "Suc _"])

subsection \<open>Command-line arguments\<close>

text \<open>
  Claim C9. Called with five positional arguments (\<open>argc = 6\<close>), \<open>main\<close> returns exit code 1
  without having loaded a model and without having opened an output file.
\<close>

theorem too_few_arguments:
  "main w fuel 6 argv =
     Some \<lparr>outcome = Exit 1, model_loaded = False, outputs_opened = False, final_state = None\<rparr>"
  by (simp add: main_def early_exit_def)

end
